theory Spec2Isabelle
  imports Main
begin

section \<open>The spider of grab/spider/base.py\<close>

text \<open>
  A shallow embedding of class \<open>Spider\<close> (src/grab/spider/base.py). The attributes of a
  spider are the fields of a record that every method takes and returns; an exception is
  a result \<open>Raised\<close> that carries the state as it stood when the exception left the
  method (Python keeps every mutation made before a raise). Logging, timers and
  \<open>time.sleep\<close> only report or wait and are left out.

  The classes \<open>Task\<close>, \<open>Grab\<close>, \<open>MulticurlTransport\<close>, the cache and queue backends and
  \<open>SpiderStat\<close> are imported by base.py and are not part of the sources at hand; what
  base.py needs of them is modelled from the specification and marked so.
\<close>

subsection \<open>Strings\<close>

definition startswith :: "string \<Rightarrow> string \<Rightarrow> bool" where
  \<comment> \<open>\<open>s.startswith(p)\<close>\<close>
  "startswith s p = (take (length p) s = p)"

definition lower_char :: "char \<Rightarrow> char" where
  "lower_char c =
     (let n = (of_char c :: nat) in if 65 \<le> n \<and> n \<le> 90 then char_of (n + 32) else c)"

definition lower :: "string \<Rightarrow> string" where
  \<comment> \<open>\<open>s.lower()\<close> on ASCII\<close>
  "lower s = map lower_char s"

fun digits10 :: "nat \<Rightarrow> string" where
  "digits10 n =
     (if n < 10 then [char_of (48 + n)] else digits10 (n div 10) @ [char_of (48 + n mod 10)])"

declare digits10.simps [simp del]

definition str_int :: "int \<Rightarrow> string" where
  \<comment> \<open>\<open>'%s' % code\<close> for an integer\<close>
  "str_int i = (if i < 0 then CHR ''-'' # digits10 (nat (- i)) else digits10 (nat i))"

subsection \<open>Exceptions\<close>

text \<open>
  A \<open>string\<close> is a byte string, the \<open>str\<close> of Python 2. The message of an exception
  is a byte string or a \<open>unicode\<close> object; the latter is kept as its text.
\<close>

datatype pytext = Bytes string | Unicode string

definition is_ascii :: "string \<Rightarrow> bool" where
  \<comment> \<open>every byte is below 128, so that the implicit decoding of a \<open>str\<close> succeeds\<close>
  "is_ascii b = list_all (\<lambda>c. (of_char c :: nat) < 128) b"

text \<open>
  An exception object, as far as base.py looks at it: the name of its class
  (\<open>ex.__class__.__name__\<close>), the message it was built from and where its class stands
  in the hierarchy \<open>BaseException > Exception > SpiderError > FatalError\<close> (error.py):
  \<open>except Exception\<close> catches every kind but \<open>Outside_Exception\<close>, which stands for
  the classes that derive from \<open>BaseException\<close> directly (\<open>KeyboardInterrupt\<close>,
  \<open>SystemExit\<close>); \<open>isinstance(ex, FatalError)\<close> holds of \<open>Fatal\<close> only; \<open>except
  StopIteration\<close> catches \<open>Stop_iteration\<close> only.
\<close>

datatype exn_kind = Outside_Exception | Ordinary | Stop_iteration | Fatal

datatype exn = Exn (cls_name: string) (message: pytext) (kind: exn_kind)

definition is_Exception :: "exn \<Rightarrow> bool" where
  "is_Exception ex = (kind ex \<noteq> Outside_Exception)"

definition is_FatalError :: "exn \<Rightarrow> bool" where
  "is_FatalError ex = (kind ex = Fatal)"

definition is_StopIteration :: "exn \<Rightarrow> bool" where
  "is_StopIteration ex = (kind ex = Stop_iteration)"

definition SpiderError :: "string \<Rightarrow> exn" where
  "SpiderError m = Exn ''SpiderError'' (Bytes m) Ordinary"

definition SpiderMisuseError :: "string \<Rightarrow> exn" where
  "SpiderMisuseError m = Exn ''SpiderMisuseError'' (Bytes m) Ordinary"

definition AttributeError :: "string \<Rightarrow> exn" where
  "AttributeError m = Exn ''AttributeError'' (Bytes m) Ordinary"

definition TypeError :: "string \<Rightarrow> exn" where
  "TypeError m = Exn ''TypeError'' (Bytes m) Ordinary"

definition NameError :: "string \<Rightarrow> exn" where
  "NameError m = Exn ''NameError'' (Bytes m) Ordinary"

definition UnicodeDecodeError :: exn where
  "UnicodeDecodeError =
     Exn ''UnicodeDecodeError'' (Bytes ''ascii codec cannot decode byte: ordinal not in range(128)'')
       Ordinary"

definition unicode :: "exn \<Rightarrow> exn + string" where
  \<comment> \<open>\<open>unicode(ex)\<close> in Python 2: a message that is a byte string is decoded as ASCII,
      which raises \<open>UnicodeDecodeError\<close> on a byte above 127\<close>
  "unicode ex =
     (case message ex of
        Unicode u \<Rightarrow> Inr u
      | Bytes b \<Rightarrow> if is_ascii b then Inr b else Inl UnicodeDecodeError)"

subsection \<open>Grab, Task and Result\<close>

text \<open>
  Modelled from the spec: the request configuration of a \<open>Grab\<close> (\<open>grab.config\<close>, the
  "opaque request configuration, e.g. headers/method/proxy"), with the keys base.py
  reads or writes; \<open>cfg_method\<close> is the method \<open>detect_request_method\<close> finds in it.
\<close>

record grab_cfg =
  cfg_url :: "string option"
  cfg_method :: string
  cfg_common_headers :: "(string \<times> string) list option"
  cfg_user_agent :: "string option"
  cfg_proxy :: "string option"
  cfg_proxy_userpwd :: "string option"
  cfg_proxy_type :: "string option"

record response =
  code :: int
  body :: string

text \<open>
  Modelled from the spec: a \<open>Grab\<close> object, the request of one fetch: its configuration,
  the method of the prepared request and the response once there is one.
\<close>

record grab =
  gconfig :: grab_cfg
  request_method :: "string option"
  gresponse :: "response option"

text \<open>
  Modelled from the spec: a \<open>Task\<close> (section 3): name, url, priority, the two try
  counters, the request configuration (\<open>None\<close> when the task has none) and the flags
  \<open>task.get\<close> reads.
\<close>

record task =
  name :: string
  url :: string
  priority :: "int option"
  network_try_count :: int
  task_try_count :: int
  grab_config :: "grab_cfg option"
  refresh_cache :: bool
  disable_cache :: bool
  use_proxylist :: bool
  valid_status :: "int list"

text \<open>The result dictionary \<open>{ok, grab, grab_config_backup, task, emsg}\<close>.\<close>

record result =
  ok :: bool
  res_grab :: grab
  grab_config_backup :: grab_cfg
  res_task :: task
  emsg :: "string option"

subsection \<open>Grab operations\<close>

text \<open>
  Modelled from the spec: \<open>load_config\<close> replaces the configuration, \<open>setup\<close> sets keys
  of it, \<open>dump_config\<close> returns a copy of it, \<open>detect_request_method\<close> reads the method
  from it and \<open>prepare_request\<close> fixes the method of the request.
\<close>

definition load_config :: "grab_cfg \<Rightarrow> grab \<Rightarrow> grab" where
  "load_config c g = g\<lparr>gconfig := c\<rparr>"

definition setup_url :: "string \<Rightarrow> grab \<Rightarrow> grab" where
  \<comment> \<open>\<open>grab.setup(url=u)\<close>\<close>
  "setup_url u g = g\<lparr>gconfig := (gconfig g)\<lparr>cfg_url := Some u\<rparr>\<rparr>"

definition setup_proxy :: "string \<Rightarrow> string option \<Rightarrow> string \<Rightarrow> grab \<Rightarrow> grab" where
  \<comment> \<open>\<open>grab.setup(proxy=p, proxy_userpwd=u, proxy_type=t)\<close>\<close>
  "setup_proxy p u t g =
     g\<lparr>gconfig := (gconfig g)\<lparr>cfg_proxy := Some p, cfg_proxy_userpwd := u, cfg_proxy_type := Some t\<rparr>\<rparr>"

definition dump_config :: "grab \<Rightarrow> grab_cfg" where
  "dump_config g = gconfig g"

definition detect_request_method :: "grab \<Rightarrow> string" where
  "detect_request_method g = cfg_method (gconfig g)"

definition prepare_request :: "grab \<Rightarrow> grab" where
  "prepare_request g = g\<lparr>request_method := Some (detect_request_method g)\<rparr>"

text \<open>
  Modelled from the spec: \<open>task.setup_grab_config\<close> "restores its request configuration
  from config_backup".
\<close>

definition setup_grab_config :: "grab_cfg \<Rightarrow> task \<Rightarrow> task" where
  "setup_grab_config c t = t\<lparr>grab_config := Some c\<rparr>"

subsection \<open>Task queue, transport and cache\<close>

text \<open>
  Modelled from the spec: the task queue (section 4.1), a priority-ordered store with
  \<open>put(task, priority)\<close> and \<open>get(timeout)\<close>, which "returns either a Task or an
  empty/timeout signal" (\<open>None\<close> here, \<open>Queue.Empty\<close> in base.py). Lower priorities come
  first and ties keep their order of insertion; a priority \<open>None\<close> sorts before every
  integer, as Python 2 compares them.
\<close>

type_synonym queue = "(int option \<times> task) list"

definition prio_le :: "int option \<Rightarrow> int option \<Rightarrow> bool" where
  "prio_le a b =
     (case a of None \<Rightarrow> True | Some x \<Rightarrow> (case b of None \<Rightarrow> False | Some y \<Rightarrow> x \<le> y))"

definition queue_put :: "task \<Rightarrow> int option \<Rightarrow> queue \<Rightarrow> queue" where
  "queue_put t p q =
     takeWhile (\<lambda>e. prio_le (fst e) p) q @ (p, t) # dropWhile (\<lambda>e. prio_le (fst e) p) q"

definition queue_get :: "queue \<Rightarrow> (task \<times> queue) option" where
  "queue_get q = (case q of [] \<Rightarrow> None | e # q' \<Rightarrow> Some (snd e, q'))"

text \<open>
  Modelled from the spec: the transport (section 4.2). \<open>process_task\<close> registers a fetch
  with its prepared request; \<open>process_handlers\<close> (and \<open>select\<close> before it) moves the
  fetches the network has finished to the completed results, the network being a
  function that says for a fetch whether it is finished and how; \<open>iterate_results\<close>
  drains the completed results.
\<close>

datatype fetch_outcome = Fetched response | Failed string

type_synonym fetch = "task \<times> grab \<times> grab_cfg"

type_synonym network = "fetch \<Rightarrow> fetch_outcome option"

record transport =
  capacity :: nat
  inflight :: "fetch list"
  completed :: "result list"

definition MulticurlTransport :: "nat \<Rightarrow> transport" where
  "MulticurlTransport n = \<lparr>capacity = n, inflight = [], completed = []\<rparr>"

definition ready_for_task :: "transport \<Rightarrow> bool" where
  "ready_for_task tr = (length (inflight tr) < capacity tr)"

definition active_task_number :: "transport \<Rightarrow> nat" where
  "active_task_number tr = length (inflight tr)"

definition process_task :: "task \<Rightarrow> grab \<Rightarrow> grab_cfg \<Rightarrow> transport \<Rightarrow> transport" where
  "process_task t g b tr = tr\<lparr>inflight := inflight tr @ [(t, prepare_request g, b)]\<rparr>"

definition fetch_result :: "fetch \<Rightarrow> fetch_outcome \<Rightarrow> result" where
  "fetch_result f out =
     (case f of (t, g, b) \<Rightarrow>
        (case out of
           Fetched r \<Rightarrow>
             \<lparr>ok = True, res_grab = g\<lparr>gresponse := Some r\<rparr>, grab_config_backup = b,
              res_task = t, emsg = None\<rparr>
         | Failed m \<Rightarrow>
             \<lparr>ok = False, res_grab = g, grab_config_backup = b, res_task = t, emsg = Some m\<rparr>))"

definition process_handlers :: "network \<Rightarrow> transport \<Rightarrow> transport" where
  "process_handlers net tr =
     tr\<lparr>inflight := filter (\<lambda>f. net f = None) (inflight tr),
        completed := completed tr @
          concat (map (\<lambda>f. case net f of None \<Rightarrow> [] | Some out \<Rightarrow> [fetch_result f out])
                      (inflight tr))\<rparr>"

definition iterate_results :: "transport \<Rightarrow> result list \<times> transport" where
  "iterate_results tr = (completed tr, tr\<lparr>completed := []\<rparr>)"

definition repair_grab :: "grab \<Rightarrow> grab" where
  \<comment> \<open>re-initializes the request object for reuse; no field of the model changes\<close>
  "repair_grab g = g"

text \<open>
  Modelled from the spec: the cache store, \<open>get(url) -> entry | none\<close>,
  \<open>load(entry) -> response\<close>, \<open>save(url, response)\<close>: a map from urls to the responses
  saved under them.
\<close>

type_synonym cache_store = "string \<rightharpoonup> response"

definition get_item :: "cache_store \<Rightarrow> string option \<Rightarrow> response option" where
  "get_item c u = (case u of None \<Rightarrow> None | Some k \<Rightarrow> c k)"

definition load_response :: "grab \<Rightarrow> response \<Rightarrow> grab" where
  "load_response g item = g\<lparr>gresponse := Some item\<rparr>"

definition save_response :: "string \<Rightarrow> grab \<Rightarrow> cache_store \<Rightarrow> cache_store" where
  "save_response u g c = (case gresponse g of None \<Rightarrow> c | Some r \<Rightarrow> c(u \<mapsto> r))"

subsection \<open>The spider\<close>

text \<open>
  The calls the spider makes to code outside it that leave no other mark in the state:
  the fallback handlers, task handlers, raw handlers and data handlers of the subclass,
  and \<open>cache.save_response\<close>.
\<close>

datatype call =
    Fallback_called string task
  | Handler_called string grab task
  | Raw_handler_called string result
  | Data_handler_called string string
  | Response_saved string grab

text \<open>
  The attributes of a \<open>Spider\<close>. \<open>config\<close> holds the truth value of each configuration
  entry; \<open>counters\<close> and \<open>items\<close> are those of \<open>SpiderStat\<close>; \<open>spider_grab_config\<close> is
  the configuration \<open>Grab(**self.grab_config)\<close> starts with; \<open>proxy\<close> is the triple
  \<open>(proxy, proxy_userpwd, proxy_type)\<close>; \<open>task_generator_object\<close> holds the tasks the
  task generator has still to yield; \<open>rng\<close> holds the draws \<open>randint\<close> will make;
  \<open>transport\<close> is the local variable of \<open>get_next_response\<close>; \<open>calls\<close> is the log of
  the calls above, oldest first.
\<close>

record spider =
  config :: "string \<rightharpoonup> bool"
  base_url :: "string option"
  taskq :: "queue option"
  task_try_limit :: int
  network_try_limit :: int
  priority_mode :: string
  retry_rebuild_user_agent :: bool
  only_cache :: bool
  thread_number :: nat
  counters :: "string \<Rightarrow> nat"
  items :: "string \<Rightarrow> string list"
  spider_grab_config :: grab_cfg
  cache_enabled :: bool
  cache :: cache_store
  should_stop :: bool
  proxylist_enabled :: bool
  proxy :: "(string \<times> string option \<times> string) option"
  proxy_auto_change :: bool
  task_generator_enabled :: bool
  task_generator_object :: "task list"
  rng :: "int list"
  transport :: transport
  calls :: "call list"

text \<open>What a method does: it returns a value, or an exception leaves it.\<close>

datatype 'a res = Returned 'a spider | Raised exn spider

definition state_of :: "'a res \<Rightarrow> spider" where
  \<comment> \<open>the spider as the method leaves it, returning or raising\<close>
  "state_of r = (case r of Returned v s \<Rightarrow> s | Raised ex s \<Rightarrow> s)"

text \<open>
  The methods a subclass defines, found by \<open>getattr\<close> under their attribute names
  (\<open>task_<name>\<close>, \<open>task_raw_<name>\<close>, \<open>data_<name>\<close>, \<open>task_<name>_fallback\<close>), and
  \<open>urlparse.urljoin\<close>. A handler is taken by what it gives back: a task handler
  returns a value, raises, or is a generator that yields values and then ends or
  raises; a raw handler returns a truth value or raises; a data handler and a fallback
  handler return or raise. What a handler does to the spider beyond that is not
  modelled.
\<close>

datatype handler_value = Ret_none | Ret_task task | Ret_data string string | Ret_other string

datatype handler_run =
    Returns handler_value
  | Raises exn
  | Generates "handler_value list" "exn option"

type_synonym task_handler = "grab \<Rightarrow> task \<Rightarrow> handler_run"

type_synonym raw_handler = "result \<Rightarrow> exn + bool"

record ext =
  task_handlers :: "string \<Rightarrow> task_handler option"
  raw_handlers :: "string \<Rightarrow> raw_handler option"
  data_handlers :: "string \<Rightarrow> (string \<Rightarrow> exn option) option"
  fallback_handlers :: "string \<Rightarrow> (task \<Rightarrow> exn option) option"
  urljoin :: "string \<Rightarrow> string \<Rightarrow> string"

text \<open>
  What the surroundings give one turn of the loop of \<open>get_next_response\<close>: the headers
  \<open>grab.common_headers()\<close> returns, the proxy \<open>proxylist.get_random()\<close> returns, and the
  network as \<open>process_handlers\<close> finds it right after a task is submitted and after
  \<open>select\<close>.
\<close>

record env =
  new_headers :: "(string \<times> string) list"
  random_proxy :: "(string \<times> string option \<times> string) option"
  net_submitted :: network
  net_selected :: network

text \<open>
  Modelled from the spec: the counters and items of \<open>SpiderStat\<close>: "monotonically
  increasing named counters" and the named lists of recorded items.
\<close>

definition inc_count :: "string \<Rightarrow> spider \<Rightarrow> spider" where
  "inc_count k s = s\<lparr>counters := (counters s)(k := counters s k + 1)\<rparr>"

definition add_item :: "string \<Rightarrow> string \<Rightarrow> spider \<Rightarrow> spider" where
  "add_item k v s = s\<lparr>items := (items s)(k := items s k @ [v])\<rparr>"

definition log_call :: "call \<Rightarrow> spider \<Rightarrow> spider" where
  "log_call c s = s\<lparr>calls := calls s @ [c]\<rparr>"

definition randint :: "int \<Rightarrow> int \<Rightarrow> spider \<Rightarrow> int \<times> spider" where
  \<comment> \<open>\<open>random.randint(a, b)\<close>: the next draw, brought into \<open>a..b\<close>\<close>
  "randint a b s =
     (case rng s of [] \<Rightarrow> (a, s) | r # rs \<Rightarrow> (a + r mod (b - a + 1), s\<lparr>rng := rs\<rparr>))"

subsection \<open>Limits and the task queue\<close>

definition check_task_limits :: "task \<Rightarrow> spider \<Rightarrow> bool \<times> spider" where
  "check_task_limits t s =
     (let is_valid = (case config s (''task_'' @ name t) of None \<Rightarrow> True | Some b \<Rightarrow> b)
      in if task_try_count t > task_try_limit s
         then (False, add_item ''too-many-task-tries'' (url t) s)
         else if network_try_count t > network_try_limit s
         then (False, add_item ''too-many-network-tries'' (url t) s)
         else (is_valid, s))"

definition check_task_limits_deprecated :: "ext \<Rightarrow> task \<Rightarrow> spider \<Rightarrow> bool res" where
  "check_task_limits_deprecated x t s =
     (case check_task_limits t s of (is_valid, s1) \<Rightarrow>
        if \<not> is_valid then
          (case fallback_handlers x (''task_'' @ name t @ ''_fallback'') of
             None \<Rightarrow> Returned is_valid s1
           | Some fallback_handler \<Rightarrow>
               (let s2 = log_call (Fallback_called (''task_'' @ name t @ ''_fallback'') t) s1
                in case fallback_handler t of
                     Some ex \<Rightarrow> Raised ex s2
                   | None \<Rightarrow> Returned is_valid s2))
        else Returned is_valid s1)"

definition DEFAULT_TASK_PRIORITY :: int where
  "DEFAULT_TASK_PRIORITY = 100"

definition RANDOM_TASK_PRIORITY_RANGE :: "int \<times> int" where
  "RANDOM_TASK_PRIORITY_RANGE = (50, 100)"

definition generate_task_priority :: "spider \<Rightarrow> int \<times> spider" where
  "generate_task_priority s =
     (if priority_mode s = ''const'' then (DEFAULT_TASK_PRIORITY, s)
      else randint (fst RANDOM_TASK_PRIORITY_RANGE) (snd RANDOM_TASK_PRIORITY_RANGE) s)"

definition add_task_handler :: "task \<Rightarrow> spider \<Rightarrow> spider" where
  \<comment> \<open>\<open>self.taskq.put(task, task.priority)\<close>; \<open>add_task\<close> calls it with a queue in place\<close>
  "add_task_handler t s =
     (case taskq s of None \<Rightarrow> s | Some q \<Rightarrow> s\<lparr>taskq := Some (queue_put t (priority t) q)\<rparr>)"

definition add_task :: "ext \<Rightarrow> task \<Rightarrow> spider \<Rightarrow> bool res" where
  "add_task x t s =
     (case taskq s of
        None \<Rightarrow> Raised (SpiderMisuseError
          ''You should configure task queue before adding tasks. Use `setup_queue` method.'') s
      | Some q \<Rightarrow>
         (case (if priority t = None
                then (case generate_task_priority s of (p, s') \<Rightarrow> (t\<lparr>priority := Some p\<rparr>, s'))
                else (t, s)) of
            (t1, s1) \<Rightarrow>
              (case (if \<not> startswith (url t1) ''http://'' \<and> \<not> startswith (url t1) ''https://''
                        \<and> \<not> startswith (url t1) ''ftp://''
                     then (case base_url s1 of
                             None \<Rightarrow> None
                           | Some b \<Rightarrow>
                               (let u = urljoin x b (url t1)
                                in case grab_config t1 of
                                     None \<Rightarrow> Some (t1\<lparr>url := u\<rparr>)
                                   | Some c \<Rightarrow>
                                       Some (t1\<lparr>url := u,
                                                grab_config := Some (c\<lparr>cfg_url := Some u\<rparr>)\<rparr>)))
                     else Some t1) of
                 None \<Rightarrow> Raised (SpiderMisuseError
                   ''Could not resolve relative URL because base_url is not specified'') s1
               | Some t2 \<Rightarrow>
                   (case check_task_limits_deprecated x t2 s1 of
                      Raised ex s2 \<Rightarrow> Raised ex s2
                    | Returned is_valid s2 \<Rightarrow>
                        if is_valid then Returned is_valid (add_task_handler t2 s2)
                        else Returned is_valid s2))))"

subsection \<open>Cache and status rules\<close>

definition cache_allowed_for_task :: "spider \<Rightarrow> task \<Rightarrow> grab \<Rightarrow> bool" where
  "cache_allowed_for_task s t g =
     (if \<not> cache_enabled s \<or> refresh_cache t \<or> disable_cache t
         \<or> detect_request_method g \<noteq> ''GET''
      then False else True)"

definition query_cache :: "task \<Rightarrow> grab \<Rightarrow> grab_cfg \<Rightarrow> spider \<Rightarrow> result option \<times> spider" where
  "query_cache t g backup s =
     (case get_item (cache s) (cfg_url (gconfig g)) of
        None \<Rightarrow> (None, s)
      | Some cache_item \<Rightarrow>
          (let g1 = load_response (prepare_request (repair_grab g)) cache_item;
               s1 = inc_count ''request-cache'' (inc_count ''request'' s)
           in (Some \<lparr>ok = True, res_grab = g1, grab_config_backup = backup,
                     res_task = t, emsg = None\<rparr>, s1)))"

definition valid_response_code :: "int \<Rightarrow> task \<Rightarrow> bool" where
  "valid_response_code c t = (c < 400 \<or> c = 404 \<or> c \<in> set (valid_status t))"

definition is_valid_for_cache :: "spider \<Rightarrow> result \<Rightarrow> exn + bool" where
  \<comment> \<open>\<open>res['grab'].response.code\<close> raises when the Grab has no response\<close>
  "is_valid_for_cache s res =
     (if ok res then
        if cache_enabled s then
          if request_method (res_grab res) = Some ''GET'' then
            if \<not> disable_cache (res_task res) then
              (case gresponse (res_grab res) of
                 None \<Rightarrow> Inl (AttributeError ''NoneType object has no attribute code'')
               | Some r \<Rightarrow>
                   if valid_response_code (code r) (res_task res) then Inr True else Inr False)
            else Inr False
          else Inr False
        else Inr False
      else Inr False)"

definition change_proxy :: "env \<Rightarrow> task \<Rightarrow> grab \<Rightarrow> spider \<Rightarrow> grab \<times> spider" where
  "change_proxy e t g s =
     (if use_proxylist t \<and> proxylist_enabled s then
        (let s1 = (if proxy_auto_change s then s\<lparr>proxy := random_proxy e\<rparr> else s)
         in case proxy s1 of
              None \<Rightarrow> (g, s1)
            | Some (p, userpwd, ptype) \<Rightarrow> (setup_proxy p userpwd ptype g, s1))
      else (g, s))"

definition create_grab_instance :: "spider \<Rightarrow> grab" where
  "create_grab_instance s =
     \<lparr>gconfig = spider_grab_config s, request_method = None, gresponse = None\<rparr>"

subsection \<open>Handlers\<close>

text \<open>
  \<open>process_handler_error\<close> (lines 627 to 655). The name of the function is only logged,
  and \<open>debug_error\<close> opens a debugger and is left out. After the counter, \<open>unicode(ex)\<close>
  is tried: only a \<open>TypeError\<close> is caught there (lines 641 to 645), and \<open>unicode\<close> of an
  exception built from a message raises none, so a \<open>UnicodeDecodeError\<close> leaves the
  method before the item is added. The item is formatted with the \<open>unicode\<close> text, which
  decodes the url of the task as ASCII and raises likewise on a byte above 127.
\<close>

definition process_handler_error :: "exn \<Rightarrow> task \<Rightarrow> spider \<Rightarrow> unit res" where
  "process_handler_error ex t s =
     (let s1 = inc_count (''error-'' @ lower (cls_name ex)) s
      in case unicode ex of
           Inl err \<Rightarrow> Raised err s1
         | Inr ex_str \<Rightarrow>
             if is_ascii (url t) then
               (let s2 = add_item ''fatal'' (cls_name ex @ ''|'' @ ex_str @ ''|'' @ url t) s1
                in if is_FatalError ex then Raised ex s2 else Returned () s2)
             else Raised UnicodeDecodeError s1)"

definition process_handler_result :: "ext \<Rightarrow> handler_value \<Rightarrow> task \<Rightarrow> spider \<Rightarrow> unit res" where
  \<comment> \<open>with no data handler the source names the unbound variable \<open>item\<close> while it builds
      its \<open>SpiderError\<close>, so a \<open>NameError\<close> is what leaves\<close>
  "process_handler_result x r t s =
     (case r of
        Ret_task new_task \<Rightarrow>
          (case add_task x new_task s of
             Raised ex s1 \<Rightarrow> Raised ex s1
           | Returned added s1 \<Rightarrow>
               if \<not> added then Returned () (add_item ''task-could-not-be-added'' (url t) s1)
               else Returned () s1)
      | Ret_data dname ditem \<Rightarrow>
          (case data_handlers x (''data_'' @ dname) of
             None \<Rightarrow> Raised (NameError ''global name item is not defined'') s
           | Some handler \<Rightarrow>
               (let s1 = log_call (Data_handler_called (''data_'' @ dname) ditem) s
                in case handler ditem of
                     None \<Rightarrow> Returned () s1
                   | Some ex \<Rightarrow>
                       if is_Exception ex then process_handler_error ex t s1
                       else Raised ex s1))
      | Ret_none \<Rightarrow> Returned () s
      | Ret_other v \<Rightarrow> Raised (SpiderError (''Unknown result type: '' @ v)) s)"

text \<open>
  The \<open>for item in result\<close> of \<open>process_response\<close>: each item a generator yields goes to
  \<open>process_handler_result\<close>; the generator ends or raises after its last item.
\<close>

fun process_generated ::
  "ext \<Rightarrow> handler_value list \<Rightarrow> exn option \<Rightarrow> task \<Rightarrow> spider \<Rightarrow> unit res" where
  "process_generated x [] fin t s =
     (case fin of None \<Rightarrow> Returned () s | Some ex \<Rightarrow> Raised ex s)"
| "process_generated x (r # rs) fin t s =
     (case process_handler_result x r t s of
        Raised ex s1 \<Rightarrow> Raised ex s1
      | Returned u s1 \<Rightarrow> process_generated x rs fin t s1)"

definition call_handler :: "ext \<Rightarrow> task_handler \<Rightarrow> result \<Rightarrow> spider \<Rightarrow> unit res" where
  \<comment> \<open>the body of the \<open>try\<close> of \<open>process_response\<close> (lines 459 to 466)\<close>
  "call_handler x handler res s =
     (let s1 = log_call (Handler_called (''task_'' @ name (res_task res)) (res_grab res)
                           (res_task res)) s
      in case handler (res_grab res) (res_task res) of
           Returns r \<Rightarrow> process_handler_result x r (res_task res) s1
         | Raises ex \<Rightarrow> Raised ex s1
         | Generates rs fin \<Rightarrow> process_generated x rs fin (res_task res) s1)"

definition retry_failed :: "ext \<Rightarrow> result \<Rightarrow> string option \<Rightarrow> spider \<Rightarrow> unit res" where
  \<comment> \<open>the \<open>else\<close> branch of \<open>process_response\<close> (lines 470 to 485), \<open>m\<close> being
      \<open>res['emsg']\<close> after line 474; slicing \<open>None\<close> raises\<close>
  "retry_failed x res m s =
     (case m of
        None \<Rightarrow> Raised (TypeError ''NoneType object has no attribute __getitem__'') s
      | Some msg \<Rightarrow>
          (let s1 = inc_count (''network-error-'' @ take 20 msg) s
           in if network_try_limit s1 > 0 then
                (let t = setup_grab_config (grab_config_backup res)
                           ((res_task res)\<lparr>refresh_cache := True\<rparr>)
                 in case add_task x t s1 of
                      Raised ex s2 \<Rightarrow> Raised ex s2
                    | Returned added s2 \<Rightarrow> Returned () s2)
              else Returned () s1))"

definition try_handler :: "ext \<Rightarrow> task_handler option \<Rightarrow> result \<Rightarrow> spider \<Rightarrow> unit res" where
  \<comment> \<open>the \<open>try ... except Exception, ex\<close> of \<open>process_response\<close> (lines 458 to 468):
      calling a handler that is \<open>None\<close> raises a \<open>TypeError\<close> inside the \<open>try\<close>, and the
      \<open>except\<close> clause then raises an \<open>AttributeError\<close> on \<open>handler.__name__\<close>\<close>
  "try_handler x handler res s =
     (case handler of
        None \<Rightarrow> Raised (AttributeError ''NoneType object has no attribute __name__'') s
      | Some h \<Rightarrow>
          (case call_handler x h res s of
             Returned u s1 \<Rightarrow> Returned () s1
           | Raised ex s1 \<Rightarrow>
               if is_Exception ex then process_handler_error ex (res_task res) s1
               else Raised ex s1))"

definition process_response ::
  "ext \<Rightarrow> result \<Rightarrow> task_handler option \<Rightarrow> raw_handler option \<Rightarrow> spider \<Rightarrow> unit res" where
  "process_response x res handler raw_handler s =
     (case (case raw_handler of
              None \<Rightarrow> Inr (True, s)
            | Some rh \<Rightarrow>
                (let s0 = log_call (Raw_handler_called (''task_raw_'' @ name (res_task res)) res) s
                 in case rh res of Inl ex \<Rightarrow> Inl (ex, s0) | Inr b \<Rightarrow> Inr (b, s0))) of
        Inl (ex, s0) \<Rightarrow> Raised ex s0
      | Inr (process_handler, s0) \<Rightarrow>
          if \<not> process_handler then Returned () s0
          else if ok res then
            (case gresponse (res_grab res) of
               None \<Rightarrow> Raised (AttributeError ''NoneType object has no attribute code'') s0
             | Some r \<Rightarrow>
                 if valid_response_code (code r) (res_task res) then
                   try_handler x handler res s0
                 else retry_failed x res (Some (''HTTP '' @ str_int (code r))) s0)
          else retry_failed x res (emsg res) s0)"

subsection \<open>The task generator\<close>

fun take_tasks :: "ext \<Rightarrow> nat \<Rightarrow> spider \<Rightarrow> unit res" where
  \<comment> \<open>the \<open>for x in xrange(n)\<close> of \<open>process_task_generator\<close> inside its \<open>try\<close> (lines 689
      to 698): \<open>except StopIteration\<close> catches the end of the generator and a
      \<open>StopIteration\<close> that leaves \<open>add_task\<close> alike, and disables the generator\<close>
  "take_tasks x 0 s = Returned () s"
| "take_tasks x (Suc n) s =
     (case task_generator_object s of
        [] \<Rightarrow> Returned () (s\<lparr>task_generator_enabled := False\<rparr>)
      | t # ts \<Rightarrow>
          (case add_task x t (s\<lparr>task_generator_object := ts\<rparr>) of
             Raised ex s1 \<Rightarrow>
               if is_StopIteration ex then Returned () (s1\<lparr>task_generator_enabled := False\<rparr>)
               else Raised ex s1
           | Returned added s1 \<Rightarrow> take_tasks x n s1))"

definition process_task_generator :: "ext \<Rightarrow> spider \<Rightarrow> unit res" where
  "process_task_generator x s =
     (if task_generator_enabled s then
        (case taskq s of
           None \<Rightarrow> Raised (AttributeError ''NoneType object has no attribute size'') s
         | Some q \<Rightarrow>
             (let qsize = length q; min_limit = thread_number s * 2
              in if qsize < min_limit then take_tasks x (min_limit - qsize) s
                 else Returned () s))
      else Returned () s)"

subsection \<open>The loop of get_next_response\<close>

text \<open>
  One turn of \<open>while True\<close> has two parts. The first (lines 321 to 379) tries to pull
  a task from the queue when the transport has room; \<open>pulled\<close> says how it ends: the
  transport has no room, the stop signal \<open>None\<close> is yielded, the queue is empty and the
  transport busy, the limits reject the task (\<open>continue\<close>), a result from the cache is
  yielded, the network request is skipped under \<open>only_cache\<close>, or the task is
  submitted to the transport.
\<close>

datatype pulled =
    No_room
  | Stop_signal
  | Still_busy
  | Rejected task
  | Cache_hit result
  | Skipped task
  | Submitted task

definition build_grab :: "env \<Rightarrow> task \<Rightarrow> spider \<Rightarrow> grab" where
  \<comment> \<open>lines 347 to 355\<close>
  "build_grab e t s =
     (let g0 = create_grab_instance s;
          g1 = (case grab_config t of Some c \<Rightarrow> load_config c g0 | None \<Rightarrow> setup_url (url t) g0);
          g2 = g1\<lparr>gconfig := (gconfig g1)\<lparr>cfg_common_headers := Some (new_headers e)\<rparr>\<rparr>
      in if retry_rebuild_user_agent s
         then g2\<lparr>gconfig := (gconfig g2)\<lparr>cfg_user_agent := None\<rparr>\<rparr>
         else g2)"

definition count_try :: "task \<Rightarrow> task" where
  \<comment> \<open>lines 339 to 341\<close>
  "count_try t0 =
     (let t1 = t0\<lparr>network_try_count := network_try_count t0 + 1\<rparr>
      in if task_try_count t1 = 0 then t1\<lparr>task_try_count := 1\<rparr> else t1)"

definition pull_task :: "ext \<Rightarrow> env \<Rightarrow> spider \<Rightarrow> pulled res" where
  "pull_task x e s =
     (if ready_for_task (transport s) then
        (case taskq s of
           None \<Rightarrow> Raised (AttributeError ''NoneType object has no attribute get'') s
         | Some q \<Rightarrow>
             (case queue_get q of
                None \<Rightarrow>
                  if active_task_number (transport s) = 0 then Returned Stop_signal s
                  else Returned Still_busy s
              | Some (t0, q') \<Rightarrow>
                  (let s0 = s\<lparr>taskq := Some q'\<rparr>;
                       t = count_try t0
                   in case check_task_limits_deprecated x t s0 of
                        Raised ex s1 \<Rightarrow> Raised ex s1
                      | Returned is_valid s1 \<Rightarrow>
                          if \<not> is_valid then Returned (Rejected t) s1
                          else
                            (let grab = build_grab e t s1;
                                 grab_config_backup = dump_config grab
                             in case (if cache_allowed_for_task s1 t grab
                                      then query_cache t grab grab_config_backup s1
                                      else (None, s1)) of
                                  (Some cache_result, s2) \<Rightarrow> Returned (Cache_hit cache_result) s2
                                | (None, s2) \<Rightarrow>
                                    if only_cache s2 then Returned (Skipped t) s2
                                    else
                                      (case change_proxy e t grab (inc_count ''request-network'' s2) of
                                         (grab', s3) \<Rightarrow>
                                           Returned (Submitted t)
                                             (s3\<lparr>transport :=
                                                   process_handlers (net_submitted e)
                                                     (process_task t grab' grab_config_backup
                                                        (transport s3))\<rparr>))))))
      else Returned No_room s)"

text \<open>
  A \<open>yield\<close> hands a value to the \<open>for\<close> loop that consumes the generator; the consumer
  runs its body on the spider and then resumes the generator, leaves the loop with
  \<open>break\<close>, or raises.
\<close>

datatype control = Resume spider | Break spider | Throw exn spider

type_synonym consumer = "result option \<Rightarrow> spider \<Rightarrow> control"

definition save_valid :: "result \<Rightarrow> spider \<Rightarrow> unit res" where
  \<comment> \<open>lines 392 to 395: what is done with a result of the transport before it is yielded\<close>
  "save_valid res s =
     (case is_valid_for_cache s res of
        Inl ex \<Rightarrow> Raised ex s
      | Inr v \<Rightarrow>
          if v then
            Returned ()
              (log_call (Response_saved (url (res_task res)) (res_grab res))
                 (s\<lparr>cache := save_response (url (res_task res)) (res_grab res) (cache s)\<rparr>))
          else Returned () s)"

fun drain :: "consumer \<Rightarrow> result list \<Rightarrow> spider \<Rightarrow> control" where
  \<comment> \<open>lines 391 to 397: \<open>for result in transport.iterate_results()\<close>\<close>
  "drain k [] s = Resume s"
| "drain k (r # rs) s =
     (case save_valid r s of
        Raised ex s1 \<Rightarrow> Throw ex s1
      | Returned u s1 \<Rightarrow>
          (case k (Some r) s1 of
             Resume s2 \<Rightarrow> drain k rs (inc_count ''request'' s2)
           | Break s2 \<Rightarrow> Break s2
           | Throw ex s2 \<Rightarrow> Throw ex s2))"

definition drain_transport :: "consumer \<Rightarrow> env \<Rightarrow> spider \<Rightarrow> control" where
  \<comment> \<open>lines 381 to 397\<close>
  "drain_transport k e s =
     (case iterate_results (process_handlers (net_selected e) (transport s)) of
        (results, tr) \<Rightarrow> drain k results (s\<lparr>transport := tr\<rparr>))"

definition loop_turn :: "consumer \<Rightarrow> ext \<Rightarrow> env \<Rightarrow> spider \<Rightarrow> control" where
  "loop_turn k x e s =
     (case pull_task x e s of
        Raised ex s1 \<Rightarrow> Throw ex s1
      | Returned p s1 \<Rightarrow>
          (case p of
             Rejected t \<Rightarrow> Resume s1
           | Stop_signal \<Rightarrow>
               (case k None s1 of
                  Resume s2 \<Rightarrow> drain_transport k e s2
                | Break s2 \<Rightarrow> Break s2
                | Throw ex s2 \<Rightarrow> Throw ex s2)
           | Cache_hit r \<Rightarrow>
               (case k (Some r) s1 of
                  Resume s2 \<Rightarrow> drain_transport k e s2
                | Break s2 \<Rightarrow> Break s2
                | Throw ex s2 \<Rightarrow> Throw ex s2)
           | No_room \<Rightarrow> drain_transport k e s1
           | Still_busy \<Rightarrow> drain_transport k e s1
           | Skipped t \<Rightarrow> drain_transport k e s1
           | Submitted t \<Rightarrow> drain_transport k e s1))"

text \<open>
  The loop runs one turn for each entry of the list of surroundings; \<open>Resume\<close> says that
  it is still running when the list ends.
\<close>

fun loop_turns :: "consumer \<Rightarrow> ext \<Rightarrow> env list \<Rightarrow> spider \<Rightarrow> control" where
  "loop_turns k x [] s = Resume s"
| "loop_turns k x (e # es) s =
     (case loop_turn k x e s of
        Resume s1 \<Rightarrow> loop_turns k x es s1
      | Break s1 \<Rightarrow> Break s1
      | Throw ex s1 \<Rightarrow> Throw ex s1)"

definition get_next_response :: "consumer \<Rightarrow> ext \<Rightarrow> env list \<Rightarrow> spider \<Rightarrow> control" where
  "get_next_response k x es s =
     loop_turns k x es (s\<lparr>transport := MulticurlTransport (thread_number s)\<rparr>)"

subsection \<open>The main cycle of run\<close>

definition count_task :: "result \<Rightarrow> spider \<Rightarrow> spider" where
  \<comment> \<open>"Increase task counters" (lines 269 to 274)\<close>
  "count_task res s =
     (let s2 = inc_count (''task-'' @ name (res_task res)) (inc_count ''task'' s)
      in if network_try_count (res_task res) = 1 \<and> task_try_count (res_task res) = 1
         then inc_count (''task-'' @ name (res_task res) @ ''-initial'') s2
         else s2)"

definition run_body :: "ext \<Rightarrow> consumer" where
  \<comment> \<open>the body of the \<open>for\<close> loop of \<open>run\<close> (lines 254 to 298)\<close>
  "run_body x res_opt s =
     (case res_opt of
        None \<Rightarrow> Break s
      | Some res \<Rightarrow>
          if should_stop s then Break s
          else
            (case (if task_generator_enabled s then process_task_generator x s
                   else Returned () s) of
               Raised ex s1 \<Rightarrow> Throw ex s1
             | Returned u s1 \<Rightarrow>
                 (let s3 = count_task res s1;
                      raw_handler = raw_handlers x (''task_raw_'' @ name (res_task res));
                      handler = task_handlers x (''task_'' @ name (res_task res))
                  in case (handler, raw_handler) of
                       (None, None) \<Rightarrow>
                         Throw (SpiderError (''No handler or raw handler defined for task ''
                                  @ name (res_task res))) s3
                     | _ \<Rightarrow>
                         (case process_response x res handler raw_handler s3 of
                            Raised ex s4 \<Rightarrow> Throw ex s4
                          | Returned u' s4 \<Rightarrow> Resume s4))))"

definition run_cycle :: "ext \<Rightarrow> env list \<Rightarrow> spider \<Rightarrow> control" where
  \<comment> \<open>\<open>for res in self.get_next_response()\<close> with the body of \<open>run\<close>\<close>
  "run_cycle x es s = get_next_response (run_body x) x es s"

subsection \<open>Construction\<close>

text \<open>
  Modelled from the spec: the configuration of a new \<open>Grab\<close>, whose method is \<open>GET\<close>,
  and a new \<open>Task(name, url=url)\<close>, whose counters start at 0.
\<close>

definition default_config :: grab_cfg where
  "default_config =
     \<lparr>cfg_url = None, cfg_method = ''GET'', cfg_common_headers = None, cfg_user_agent = None,
      cfg_proxy = None, cfg_proxy_userpwd = None, cfg_proxy_type = None\<rparr>"

definition Task :: "string \<Rightarrow> string \<Rightarrow> task" where
  "Task n u =
     \<lparr>name = n, url = u, priority = None, network_try_count = 0, task_try_count = 0,
      grab_config = None, refresh_cache = False, disable_cache = False, use_proxylist = True,
      valid_status = []\<rparr>"

definition Spider :: spider where
  \<comment> \<open>\<open>__init__\<close> with its default arguments (lines 57 to 146)\<close>
  "Spider =
     \<lparr>config = Map.empty, base_url = None, taskq = None, task_try_limit = 10,
      network_try_limit = 10, priority_mode = ''random'', retry_rebuild_user_agent = True,
      only_cache = False, thread_number = 3, counters = (\<lambda>k. 0), items = (\<lambda>k. []),
      spider_grab_config = default_config, cache_enabled = False, cache = Map.empty,
      should_stop = False, proxylist_enabled = False, proxy = None, proxy_auto_change = False,
      task_generator_enabled = False, task_generator_object = [], rng = [],
      transport = MulticurlTransport 3, calls = []\<rparr>"

definition setup_queue :: "spider \<Rightarrow> spider" where
  \<comment> \<open>the memory backend: an empty queue\<close>
  "setup_queue s = s\<lparr>taskq := Some []\<rparr>"

definition no_handlers :: ext where
  \<comment> \<open>a subclass that defines no handler; \<open>urljoin\<close> is not modelled and appends\<close>
  "no_handlers =
     \<lparr>task_handlers = (\<lambda>n. None), raw_handlers = (\<lambda>n. None), data_handlers = (\<lambda>n. None),
      fallback_handlers = (\<lambda>n. None), urljoin = (\<lambda>b u. b @ u)\<rparr>"

definition quiet :: env where
  \<comment> \<open>surroundings in which no fetch finishes\<close>
  "quiet =
     \<lparr>new_headers = [], random_proxy = None, net_submitted = (\<lambda>f. None),
      net_selected = (\<lambda>f. None)\<rparr>"

subsection \<open>Consumers and subclasses used in examples\<close>

definition until_stop :: consumer where
  \<comment> \<open>a consumer that leaves the loop at the stop signal, as \<open>run\<close> does, and otherwise
      only resumes the generator\<close>
  "until_stop r s = (case r of None \<Rightarrow> Break s | Some res \<Rightarrow> Resume s)"

definition with_fallback :: ext where
  \<comment> \<open>a subclass that defines \<open>task_page_fallback\<close>, which returns\<close>
  "with_fallback =
     no_handlers\<lparr>fallback_handlers :=
       (\<lambda>n. if n = ''task_page_fallback'' then Some (\<lambda>t. None) else None)\<rparr>"

definition page :: task where
  "page = Task ''page'' ''http://example.com/''"

definition tried :: task where
  \<comment> \<open>a task in the queue that has used up the ten network tries of the default limit\<close>
  "tried = page\<lparr>priority := Some 100, network_try_count := 10, task_try_count := 1\<rparr>"

definition fetched_page :: result where
  \<comment> \<open>a result of the transport: the first fetch of \<open>page\<close> answered with status 200\<close>
  "fetched_page =
     \<lparr>ok = True,
      res_grab = \<lparr>gconfig = default_config, request_method = Some ''GET'',
                  gresponse = Some \<lparr>code = 200, body = ''hello''\<rparr>\<rparr>,
      grab_config_backup = default_config, res_task = count_try page, emsg = None\<rparr>"

definition queued_page :: task where
  \<comment> \<open>\<open>page\<close> as \<open>add_task\<close> puts it into the queue under \<open>priority_mode = 'const'\<close>\<close>
  "queued_page = page\<lparr>priority := Some 100\<rparr>"

definition cached_spider :: spider where
  \<comment> \<open>a spider with a cache that holds a response for the url of \<open>page\<close>, and \<open>page\<close>
      in its queue\<close>
  "cached_spider =
     add_task_handler queued_page
       (setup_queue (Spider\<lparr>cache_enabled := True,
          cache := [''http://example.com/'' \<mapsto> \<lparr>code = 200, body = ''hello''\<rparr>]\<rparr>))"








definition first_try :: env where
  \<comment> \<open>surroundings of a first dispatch: a draw of the common headers\<close>
  "first_try = quiet\<lparr>new_headers := [(''Accept-Language'', ''en-us,en;q=0.5'')]\<rparr>"

definition second_try :: env where
  \<comment> \<open>surroundings of a later dispatch: another draw of the common headers\<close>
  "second_try = quiet\<lparr>new_headers := [(''Accept-Language'', ''en-us,en;q=0.9'')]\<rparr>"

definition failed_page :: result where
  \<comment> \<open>the result of the transport for the first fetch of \<open>page\<close>, dispatched under
      \<open>first_try\<close> and failed in the network\<close>
  "failed_page =
     fetch_result
       (count_try queued_page,
        prepare_request (build_grab first_try (count_try queued_page) Spider),
        dump_config (build_grab first_try (count_try queued_page) Spider))
       (Failed ''Operation timed out'')"

definition retried :: task where
  \<comment> \<open>the task of \<open>failed_page\<close> as \<open>process_response\<close> puts it back into the queue\<close>
  "retried =
     (res_task failed_page)\<lparr>refresh_cache := True,
        grab_config := Some (grab_config_backup failed_page)\<rparr>"

definition vetoing :: ext where
  \<comment> \<open>a subclass whose \<open>task_raw_page\<close> returns \<open>False\<close>\<close>
  "vetoing =
     no_handlers\<lparr>raw_handlers :=
       (\<lambda>n. if n = ''task_raw_page'' then Some (\<lambda>r. Inr False) else None)\<rparr>"


definition undecodable :: exn where
  \<comment> \<open>an ordinary exception whose message is a byte string with the byte 233\<close>
  "undecodable = Exn ''ValueError'' (Bytes [char_of (233 :: nat)]) Ordinary"

definition moved_page :: task where
  \<comment> \<open>\<open>page\<close> in the queue with a request configuration of its own that names another url\<close>
  "moved_page =
     queued_page\<lparr>grab_config := Some (default_config\<lparr>cfg_url := Some ''http://example.org/''\<rparr>)\<rparr>"

definition moved_spider :: spider where
  \<comment> \<open>a spider with a cache that holds a response for the url of \<open>page\<close>, and \<open>moved_page\<close>
      in its queue\<close>
  "moved_spider =
     add_task_handler moved_page
       (setup_queue (Spider\<lparr>cache_enabled := True,
          cache := [''http://example.com/'' \<mapsto> \<lparr>code = 200, body = ''hello''\<rparr>]\<rparr>))"

definition no_retry_spider :: spider where
  \<comment> \<open>\<open>Spider(network_try_limit=0)\<close> with the memory queue set up\<close>
  "no_retry_spider = setup_queue (Spider\<lparr>network_try_limit := 0\<rparr>)"

definition added_page :: task where
  \<comment> \<open>\<open>page\<close> as \<open>add_task\<close> puts it into the queue of a spider that has no draws left\<close>
  "added_page = page\<lparr>priority := Some 50\<rparr>"

section \<open>Properties\<close>

subsection \<open>Status validity\<close>

text \<open>
  C7: a response code is valid for a task, so that the response goes to the task's
  handler and is not treated as an error, if and only if the code is below 400, or is
  404, or is one of the task's \<open>valid_status\<close>.
\<close>

theorem valid_response_code_iff:
  "(valid_response_code c t \<longleftrightarrow> (c < 400 \<or> c = 404 \<or> c \<in> set (valid_status t)))
   \<and> process_response x res handler None s =
       (if ok res then
          (case gresponse (res_grab res) of
             None \<Rightarrow> Raised (AttributeError ''NoneType object has no attribute code'') s
           | Some r \<Rightarrow>
               if code r < 400 \<or> code r = 404 \<or> code r \<in> set (valid_status (res_task res))
               then try_handler x handler res s
               else retry_failed x res (Some (''HTTP '' @ str_int (code r))) s)
        else retry_failed x res (emsg res) s)"
  by (simp add: valid_response_code_def process_response_def split: option.splits)

theorem valid_response_code_witness:
  "valid_response_code 200 (Task ''page'' ''http://a/'')
   \<and> valid_response_code 404 (Task ''page'' ''http://a/'')
   \<and> \<not> valid_response_code 500 (Task ''page'' ''http://a/'')
   \<and> valid_response_code 500 ((Task ''page'' ''http://a/'')\<lparr>valid_status := [500]\<rparr>)"
  using valid_response_code_iff [of 200 "Task ''page'' ''http://a/''"]
        valid_response_code_iff [of 404 "Task ''page'' ''http://a/''"]
        valid_response_code_iff [of 500 "Task ''page'' ''http://a/''"]
        valid_response_code_iff [of 500 "(Task ''page'' ''http://a/'')\<lparr>valid_status := [500]\<rparr>"]
  by (simp add: Task_def)

subsection \<open>Cache eligibility\<close>

text \<open>
  C5: \<open>cache_allowed_for_task\<close> returns true, so that the cache is queried for the
  task, if and only if the cache is enabled, the task sets neither \<open>refresh_cache\<close> nor
  \<open>disable_cache\<close>, and the detected request method is \<open>GET\<close>.
\<close>

theorem cache_allowed_for_task_iff:
  "cache_allowed_for_task s t g \<longleftrightarrow>
     (cache_enabled s \<and> \<not> refresh_cache t \<and> \<not> disable_cache t
      \<and> detect_request_method g = ''GET'')"
  by (simp add: cache_allowed_for_task_def)

theorem cache_allowed_for_task_witness:
  "cache_allowed_for_task (Spider\<lparr>cache_enabled := True\<rparr>) (Task ''page'' ''http://a/'')
     (create_grab_instance Spider)
   \<and> \<not> cache_allowed_for_task Spider (Task ''page'' ''http://a/'') (create_grab_instance Spider)"
  using cache_allowed_for_task_iff [of "Spider\<lparr>cache_enabled := True\<rparr>"
          "Task ''page'' ''http://a/''" "create_grab_instance Spider"]
        cache_allowed_for_task_iff [of Spider "Task ''page'' ''http://a/''"
          "create_grab_instance Spider"]
  by (simp add: Spider_def Task_def create_grab_instance_def detect_request_method_def
      default_config_def)

subsection \<open>Helper facts\<close>

lemma queue_get_None: "queue_get q = None \<longleftrightarrow> q = []"
  by (auto simp: queue_get_def split: list.splits)

lemma check_task_limits_frame:
  "transport (snd (check_task_limits t s)) = transport s"
  "taskq (snd (check_task_limits t s)) = taskq s"
  "calls (snd (check_task_limits t s)) = calls s"
  "cache (snd (check_task_limits t s)) = cache s"
  by (simp_all add: check_task_limits_def add_item_def Let_def)

lemma check_task_limits_deprecated_frame:
  "transport (state_of (check_task_limits_deprecated x t s)) = transport s"
  "taskq (state_of (check_task_limits_deprecated x t s)) = taskq s"
  "cache (state_of (check_task_limits_deprecated x t s)) = cache s"
  using check_task_limits_frame [of t s]
  by (auto simp: check_task_limits_deprecated_def state_of_def log_call_def Let_def
      split: prod.splits option.splits)

lemma check_task_limits_deprecated_verdict:
  "check_task_limits_deprecated x t s = Returned v s' \<Longrightarrow> v = fst (check_task_limits t s)"
  by (auto simp: check_task_limits_deprecated_def Let_def split: prod.splits option.splits if_splits)

lemma pull_task_stop:
  "pull_task x e s = Returned Stop_signal s' \<longleftrightarrow>
     (s' = s \<and> ready_for_task (transport s) \<and> (\<exists>q. taskq s = Some q \<and> queue_get q = None)
      \<and> active_task_number (transport s) = 0)"
  by (auto simp: pull_task_def Let_def split: option.splits res.splits prod.splits if_splits)

lemma drain_until_stop: "drain until_stop rs s \<noteq> Break s'"
  by (induction rs arbitrary: s) (auto simp: until_stop_def split: res.splits)

lemma loop_turn_until_stop:
  "loop_turn until_stop x e s = Break s' \<longleftrightarrow> pull_task x e s = Returned Stop_signal s'"
  by (auto simp: loop_turn_def until_stop_def drain_transport_def drain_until_stop
      split: res.splits pulled.splits prod.splits)

lemma limits_fail_iff:
  "\<not> fst (check_task_limits t s) \<longleftrightarrow>
     (config s (''task_'' @ name t) = Some False \<or> task_try_limit s < task_try_count t
      \<or> network_try_limit s < network_try_count t)"
  by (auto simp: check_task_limits_def Let_def split: option.splits)

lemma fallback_called_once:
  "calls (state_of (check_task_limits_deprecated x t s)) =
     calls s @ (if \<not> fst (check_task_limits t s)
                   \<and> fallback_handlers x (''task_'' @ name t @ ''_fallback'') \<noteq> None
                then [Fallback_called (''task_'' @ name t @ ''_fallback'') t] else [])"
  using check_task_limits_frame [of t s]
  by (auto simp: check_task_limits_deprecated_def state_of_def log_call_def Let_def
      split: prod.splits option.splits)

lemma pull_task_rejected:
  assumes "ready_for_task (transport s)" "taskq s = Some q" "queue_get q = Some (t0, q')"
    "\<not> fst (check_task_limits (count_try t0) (s\<lparr>taskq := Some q'\<rparr>))"
  shows "pull_task x e s =
           (case check_task_limits_deprecated x (count_try t0) (s\<lparr>taskq := Some q'\<rparr>) of
              Raised ex s1 \<Rightarrow> Raised ex s1
            | Returned v s1 \<Rightarrow> Returned (Rejected (count_try t0)) s1)"
  using assms check_task_limits_deprecated_verdict [of x "count_try t0" "s\<lparr>taskq := Some q'\<rparr>"]
  by (auto simp: pull_task_def Let_def split: res.splits)

lemma rejected_not_dispatched:
  assumes "ready_for_task (transport s)" "taskq s = Some q" "queue_get q = Some (t0, q')"
    "\<not> fst (check_task_limits (count_try t0) (s\<lparr>taskq := Some q'\<rparr>))"
  shows "transport (state_of (pull_task x e s)) = transport s"
    and "loop_turn k x e s =
           (case check_task_limits_deprecated x (count_try t0) (s\<lparr>taskq := Some q'\<rparr>) of
              Raised ex s1 \<Rightarrow> Throw ex s1
            | Returned v s1 \<Rightarrow> Resume s1)"
proof -
  let ?r = "check_task_limits_deprecated x (count_try t0) (s\<lparr>taskq := Some q'\<rparr>)"
  have tr: "transport (state_of ?r) = transport s"
    using check_task_limits_deprecated_frame(1) [of x "count_try t0" "s\<lparr>taskq := Some q'\<rparr>"]
    by simp
  show "transport (state_of (pull_task x e s)) = transport s"
    using tr by (simp add: pull_task_rejected [OF assms] state_of_def split: res.splits)
  show "loop_turn k x e s = (case ?r of Raised ex s1 \<Rightarrow> Throw ex s1 | Returned v s1 \<Rightarrow> Resume s1)"
    by (simp add: loop_turn_def pull_task_rejected [OF assms] split: res.splits)
qed

lemma lower_ASCII [simp]:
  "lower [] = []"
  "lower (c # cs) = lower_char c # lower cs"
  by (simp_all add: lower_def)

subsection \<open>The limit check\<close>

text \<open>
  C1: a limit configured as 0 is meant to switch its check off: the docstring of
  \<open>__init__\<close> says of \<open>network_try_limit\<close> "use 0 to disable", and \<open>process_response\<close>
  takes 0 as "no retry" (line 479). \<open>check_task_limits\<close> has no such case. Under
  \<open>Spider(network_try_limit=0)\<close> a new task is accepted by \<open>add_task\<close>, its first pull
  raises \<open>network_try_count\<close> to 1, the check finds 1 above 0, and the task is rejected
  and never reaches the transport: here the code does not do what the specification
  states.
\<close>

theorem zero_limit_rejects_first_pull:
  "network_try_limit no_retry_spider = 0
   \<and> add_task no_handlers page no_retry_spider =
       Returned True (add_task_handler added_page no_retry_spider)
   \<and> network_try_count (count_try added_page) = 1
   \<and> \<not> fst (check_task_limits (count_try added_page) no_retry_spider)
   \<and> pull_task no_handlers quiet (add_task_handler added_page no_retry_spider) =
       Returned (Rejected (count_try added_page))
         (add_item ''too-many-network-tries'' ''http://example.com/'' no_retry_spider)
   \<and> transport (add_item ''too-many-network-tries'' ''http://example.com/'' no_retry_spider) =
       MulticurlTransport 3"
proof -
  have a: "add_task no_handlers page no_retry_spider =
       Returned True (add_task_handler added_page no_retry_spider)"
    by (simp add: add_task_def no_retry_spider_def setup_queue_def Spider_def page_def Task_def
        added_page_def generate_task_priority_def randint_def RANDOM_TASK_PRIORITY_RANGE_def
        startswith_def check_task_limits_deprecated_def check_task_limits_def
        add_task_handler_def)
  have b: "network_try_count (count_try added_page) = 1"
    "\<not> fst (check_task_limits (count_try added_page) no_retry_spider)"
    by (simp_all add: check_task_limits_def count_try_def added_page_def page_def Task_def
        no_retry_spider_def setup_queue_def Spider_def)
  have c: "pull_task no_handlers quiet (add_task_handler added_page no_retry_spider) =
       Returned (Rejected (count_try added_page))
         (add_item ''too-many-network-tries'' ''http://example.com/'' no_retry_spider)"
    by (simp add: pull_task_def add_task_handler_def no_retry_spider_def setup_queue_def
        Spider_def queue_put_def queue_get_def ready_for_task_def MulticurlTransport_def
        check_task_limits_deprecated_def check_task_limits_def count_try_def added_page_def
        page_def Task_def no_handlers_def add_item_def Let_def)
  show ?thesis
    using a b c
    by (simp add: no_retry_spider_def setup_queue_def Spider_def add_item_def)
qed

text \<open>
  X1: with both limits other than 0, the limit check fails exactly when the
  configuration entry \<open>task_<name>\<close> is false, or \<open>task_try_count\<close> is greater than
  \<open>task_try_limit\<close>, or \<open>network_try_count\<close> is greater than \<open>network_try_limit\<close>.
  Whatever the limits, \<open>check_task_limits_deprecated\<close> returns the verdict of
  \<open>check_task_limits\<close> and calls the fallback handler \<open>task_<name>_fallback\<close> exactly once
  when the check fails and the handler is defined, and not otherwise; and a task pulled
  from the queue that fails the check leaves the transport as it was, the turn of the
  loop ending there: nothing is yielded and the transport is not driven.
\<close>

theorem limit_check_away_from_zero:
  "(task_try_limit s \<noteq> 0 \<and> network_try_limit s \<noteq> 0 \<longrightarrow>
      (\<not> fst (check_task_limits t s) \<longleftrightarrow>
         (config s (''task_'' @ name t) = Some False \<or> task_try_limit s < task_try_count t
          \<or> network_try_limit s < network_try_count t)))
   \<and> (\<forall>v s'. check_task_limits_deprecated x t s = Returned v s' \<longrightarrow>
         v = fst (check_task_limits t s))
   \<and> calls (state_of (check_task_limits_deprecated x t s)) =
       calls s @ (if \<not> fst (check_task_limits t s)
                     \<and> fallback_handlers x (''task_'' @ name t @ ''_fallback'') \<noteq> None
                  then [Fallback_called (''task_'' @ name t @ ''_fallback'') t] else [])
   \<and> (ready_for_task (transport s) \<and> taskq s = Some q \<and> queue_get q = Some (tk, q')
        \<and> \<not> fst (check_task_limits (count_try tk) (s\<lparr>taskq := Some q'\<rparr>)) \<longrightarrow>
        transport (state_of (pull_task x e s)) = transport s
        \<and> loop_turn k x e s =
            (case check_task_limits_deprecated x (count_try tk) (s\<lparr>taskq := Some q'\<rparr>) of
               Raised ex s1 \<Rightarrow> Throw ex s1
             | Returned v s1 \<Rightarrow> Resume s1))"
proof (intro conjI allI impI)
  show "\<not> fst (check_task_limits t s) \<longleftrightarrow>
      (config s (''task_'' @ name t) = Some False \<or> task_try_limit s < task_try_count t
       \<or> network_try_limit s < network_try_count t)"
    by (rule limits_fail_iff)
next
  fix v s'
  assume "check_task_limits_deprecated x t s = Returned v s'"
  then show "v = fst (check_task_limits t s)"
    by (rule check_task_limits_deprecated_verdict)
next
  show "calls (state_of (check_task_limits_deprecated x t s)) =
       calls s @ (if \<not> fst (check_task_limits t s)
                     \<and> fallback_handlers x (''task_'' @ name t @ ''_fallback'') \<noteq> None
                  then [Fallback_called (''task_'' @ name t @ ''_fallback'') t] else [])"
    by (rule fallback_called_once)
next
  assume a: "ready_for_task (transport s) \<and> taskq s = Some q \<and> queue_get q = Some (tk, q')
        \<and> \<not> fst (check_task_limits (count_try tk) (s\<lparr>taskq := Some q'\<rparr>))"
  then show "transport (state_of (pull_task x e s)) = transport s"
    using rejected_not_dispatched(1) [of s q tk q' x e] by blast
  from a show "loop_turn k x e s =
            (case check_task_limits_deprecated x (count_try tk) (s\<lparr>taskq := Some q'\<rparr>) of
               Raised ex s1 \<Rightarrow> Throw ex s1
             | Returned v s1 \<Rightarrow> Resume s1)"
    using rejected_not_dispatched(2) [of s q tk q' k x e] by blast
qed

theorem limit_check_away_from_zero_witness:
  "\<not> fst (check_task_limits (count_try tried) (setup_queue Spider))
   \<and> calls (state_of (check_task_limits_deprecated with_fallback (count_try tried)
              (setup_queue Spider))) =
       [Fallback_called ''task_page_fallback'' (count_try tried)]
   \<and> transport (state_of (pull_task with_fallback quiet
         (add_task_handler tried (setup_queue Spider)))) = MulticurlTransport 3
   \<and> loop_turn until_stop with_fallback quiet (add_task_handler tried (setup_queue Spider)) =
       Resume (log_call (Fallback_called ''task_page_fallback'' (count_try tried))
                 (add_item ''too-many-network-tries'' ''http://example.com/''
                    (setup_queue Spider)))"
proof -
  let ?s = "add_task_handler tried (setup_queue Spider)"
  have q: "taskq ?s = Some [(Some 100, tried)]" "queue_get [(Some 100, tried)] = Some (tried, [])"
    "?s\<lparr>taskq := Some []\<rparr> = setup_queue Spider" "transport ?s = MulticurlTransport 3"
    "calls (setup_queue Spider) = []"
    by (simp_all add: add_task_handler_def setup_queue_def queue_put_def queue_get_def
        tried_def Spider_def)
  have ready: "ready_for_task (transport ?s)"
    by (simp add: q ready_for_task_def MulticurlTransport_def)
  have fails: "\<not> fst (check_task_limits (count_try tried) (setup_queue Spider))"
    by (simp add: check_task_limits_def count_try_def tried_def setup_queue_def Spider_def)
  have fb: "fallback_handlers with_fallback (''task_'' @ name (count_try tried) @ ''_fallback'')
              = Some (\<lambda>t. None)"
    by (simp add: with_fallback_def no_handlers_def count_try_def tried_def page_def Task_def)
  have dep: "check_task_limits_deprecated with_fallback (count_try tried) (setup_queue Spider) =
      Returned False (log_call (Fallback_called ''task_page_fallback'' (count_try tried))
        (add_item ''too-many-network-tries'' ''http://example.com/'' (setup_queue Spider)))"
    using fb
    by (simp add: check_task_limits_deprecated_def check_task_limits_def count_try_def tried_def
        page_def Task_def setup_queue_def Spider_def)
  note inst = limit_check_away_from_zero [where t = "count_try tried" and s = "setup_queue Spider"
      and x = with_fallback]
    limit_check_away_from_zero [where s = ?s and x = with_fallback and q = "[(Some 100, tried)]"
      and tk = tried and q' = "[]" and e = quiet and k = until_stop]
  show ?thesis
    using inst fails ready fb by (simp add: q dep state_of_def log_call_def add_item_def)
qed


subsection \<open>The stop signal\<close>

text \<open>
  C3: in one turn of the loop of \<open>get_next_response\<close> the stop signal \<open>None\<close> is yielded
  (a consumer that leaves the loop only at \<open>None\<close> leaves it in that turn) if and only if
  in that turn the queue is asked for a task (the transport has room), the queue is
  empty, and \<open>active_task_number()\<close> is 0. So the stop signal is never yielded while
  the queue holds a task or a fetch is in flight.
\<close>

theorem stop_signal_iff:
  "((\<exists>s'. loop_turn until_stop x e s = Break s') \<longleftrightarrow>
      (ready_for_task (transport s) \<and> (\<exists>q. taskq s = Some q \<and> queue_get q = None)
       \<and> active_task_number (transport s) = 0))
   \<and> ((\<exists>s'. pull_task x e s = Returned Stop_signal s') \<longleftrightarrow>
      (ready_for_task (transport s) \<and> (\<exists>q. taskq s = Some q \<and> queue_get q = None)
       \<and> active_task_number (transport s) = 0))
   \<and> ((\<exists>s'. pull_task x e s = Returned Stop_signal s') \<longrightarrow>
      taskq s = Some [] \<and> inflight (transport s) = [])"
  by (auto simp: loop_turn_until_stop pull_task_stop queue_get_None active_task_number_def)

theorem stop_signal_witness:
  "(\<exists>s'. loop_turn until_stop no_handlers quiet (setup_queue Spider) = Break s')
   \<and> taskq (setup_queue Spider) = Some [] \<and> inflight (transport (setup_queue Spider)) = []
   \<and> \<not> (\<exists>s'. loop_turn until_stop no_handlers quiet
              (add_task_handler page (setup_queue Spider)) = Break s')"
  using stop_signal_iff [of no_handlers quiet "setup_queue Spider"]
        stop_signal_iff [of no_handlers quiet "add_task_handler page (setup_queue Spider)"]
  by (simp add: setup_queue_def Spider_def MulticurlTransport_def ready_for_task_def
      active_task_number_def queue_get_def add_task_handler_def queue_put_def)

subsection \<open>Writing results to the cache\<close>

lemma save_valid_written:
  assumes "ok res" "cache_enabled s" "request_method (res_grab res) = Some ''GET''"
    "\<not> disable_cache (res_task res)" "gresponse (res_grab res) = Some r"
    "valid_response_code (code r) (res_task res)"
  shows "save_valid res s =
           Returned () (log_call (Response_saved (url (res_task res)) (res_grab res))
             (s\<lparr>cache := (cache s)(url (res_task res) \<mapsto> r)\<rparr>))"
  using assms by (simp add: save_valid_def is_valid_for_cache_def save_response_def)

lemma save_valid_not_written:
  assumes "\<not> (ok res \<and> cache_enabled s \<and> request_method (res_grab res) = Some ''GET''
      \<and> \<not> disable_cache (res_task res)
      \<and> (\<exists>r. gresponse (res_grab res) = Some r \<and> valid_response_code (code r) (res_task res)))"
  shows "state_of (save_valid res s) = s"
  using assms by (auto simp: save_valid_def is_valid_for_cache_def state_of_def split: option.splits)

text \<open>
  C6: for every result drained from the transport, \<open>cache.save_response\<close> is called
  (with the task's url and the result's Grab, before the result is yielded) if and only
  if the result is ok, the cache is enabled, the request method was \<open>GET\<close>, the task
  does not set \<open>disable_cache\<close>, and the status of the response is valid for the task.
  When it is called the response is stored under the task's url; otherwise the spider is
  left as it was.
\<close>

theorem save_valid_iff:
  "(calls (state_of (save_valid res s)) =
      calls s @ [Response_saved (url (res_task res)) (res_grab res)]
    \<longleftrightarrow> (ok res \<and> cache_enabled s \<and> request_method (res_grab res) = Some ''GET''
         \<and> \<not> disable_cache (res_task res)
         \<and> (\<exists>r. gresponse (res_grab res) = Some r
                \<and> valid_response_code (code r) (res_task res))))
   \<and> (calls (state_of (save_valid res s)) \<noteq>
         calls s @ [Response_saved (url (res_task res)) (res_grab res)]
        \<longrightarrow> state_of (save_valid res s) = s)
   \<and> (\<forall>r. ok res \<and> cache_enabled s \<and> request_method (res_grab res) = Some ''GET''
         \<and> \<not> disable_cache (res_task res) \<and> gresponse (res_grab res) = Some r
         \<and> valid_response_code (code r) (res_task res)
        \<longrightarrow> cache (state_of (save_valid res s)) = (cache s)(url (res_task res) \<mapsto> r))
   \<and> drain k (res # rs) s =
       (case save_valid res s of
          Raised ex s1 \<Rightarrow> Throw ex s1
        | Returned u s1 \<Rightarrow>
            (case k (Some res) s1 of
               Resume s2 \<Rightarrow> drain k rs (inc_count ''request'' s2)
             | Break s2 \<Rightarrow> Break s2
             | Throw ex s2 \<Rightarrow> Throw ex s2))"
proof -
  let ?W = "ok res \<and> cache_enabled s \<and> request_method (res_grab res) = Some ''GET''
         \<and> \<not> disable_cache (res_task res)
         \<and> (\<exists>r. gresponse (res_grab res) = Some r
                \<and> valid_response_code (code r) (res_task res))"
  let ?c = "Response_saved (url (res_task res)) (res_grab res)"
  have yes: "?W \<Longrightarrow> calls (state_of (save_valid res s)) = calls s @ [?c]"
    by (auto simp: save_valid_written state_of_def log_call_def)
  have no: "\<not> ?W \<Longrightarrow> state_of (save_valid res s) = s"
    by (rule save_valid_not_written)
  have iff: "calls (state_of (save_valid res s)) = calls s @ [?c] \<longleftrightarrow> ?W"
    using yes no by (cases ?W) auto
  have c3: "\<And>r. ok res \<and> cache_enabled s \<and> request_method (res_grab res) = Some ''GET''
         \<and> \<not> disable_cache (res_task res) \<and> gresponse (res_grab res) = Some r
         \<and> valid_response_code (code r) (res_task res)
        \<Longrightarrow> cache (state_of (save_valid res s)) = (cache s)(url (res_task res) \<mapsto> r)"
    by (simp add: save_valid_written state_of_def log_call_def)
  show ?thesis
    using iff no c3 by (simp del: fun_upd_apply)
qed

theorem save_valid_witness:
  "calls (state_of (save_valid fetched_page (Spider\<lparr>cache_enabled := True\<rparr>))) =
     [Response_saved ''http://example.com/'' (res_grab fetched_page)]
   \<and> cache (state_of (save_valid fetched_page (Spider\<lparr>cache_enabled := True\<rparr>)))
        ''http://example.com/'' = Some \<lparr>code = 200, body = ''hello''\<rparr>
   \<and> state_of (save_valid fetched_page Spider) = Spider"
proof -
  have f: "ok fetched_page" "request_method (res_grab fetched_page) = Some ''GET''"
    "\<not> disable_cache (res_task fetched_page)"
    "gresponse (res_grab fetched_page) = Some \<lparr>code = 200, body = ''hello''\<rparr>"
    "valid_response_code 200 (res_task fetched_page)"
    "url (res_task fetched_page) = ''http://example.com/''"
    by (simp_all add: fetched_page_def count_try_def page_def Task_def valid_response_code_def)
  have s: "cache_enabled (Spider\<lparr>cache_enabled := True\<rparr>)" "\<not> cache_enabled Spider"
    "calls (Spider\<lparr>cache_enabled := True\<rparr>) = []" "calls Spider = []"
    by (simp_all add: Spider_def)
  note inst = save_valid_iff [of fetched_page "Spider\<lparr>cache_enabled := True\<rparr>"]
    save_valid_iff [of fetched_page Spider]
  show ?thesis
    using inst f s by auto
qed

subsection \<open>Misuse of add_task\<close>

lemma check_task_limits_deprecated_raised:
  "check_task_limits_deprecated x t s = Raised ex s' \<Longrightarrow>
     \<exists>h. fallback_handlers x (''task_'' @ name t @ ''_fallback'') = Some h \<and> h t = Some ex"
  by (auto simp: check_task_limits_deprecated_def Let_def split: prod.splits option.splits if_splits)

lemma generate_task_priority_frame:
  "taskq (snd (generate_task_priority s)) = taskq s"
  "base_url (snd (generate_task_priority s)) = base_url s"
  by (auto simp: generate_task_priority_def randint_def split: list.splits)

lemma add_task_no_queue:
  "taskq s = None \<Longrightarrow>
   add_task x t s = Raised (SpiderMisuseError
     ''You should configure task queue before adding tasks. Use `setup_queue` method.'') s"
  by (simp add: add_task_def)

lemma add_task_relative:
  assumes "taskq s \<noteq> None" "\<not> startswith (url t) ''http://''" "\<not> startswith (url t) ''https://''"
    "\<not> startswith (url t) ''ftp://''" "base_url s = None"
  shows "\<exists>s'. add_task x t s = Raised (SpiderMisuseError
     ''Could not resolve relative URL because base_url is not specified'') s' \<and> taskq s' = taskq s"
proof (cases "priority t = None")
  case True
  obtain p s1 where g: "generate_task_priority s = (p, s1)" by (cases "generate_task_priority s")
  have "taskq s1 = taskq s" "base_url s1 = base_url s"
    using generate_task_priority_frame [of s] g by simp_all
  then show ?thesis using assms True g by (auto simp: add_task_def)
next
  case False
  then show ?thesis using assms by (auto simp: add_task_def)
qed

lemma add_task_otherwise:
  assumes "taskq s \<noteq> None"
    "startswith (url t) ''http://'' \<or> startswith (url t) ''https://''
       \<or> startswith (url t) ''ftp://'' \<or> base_url s \<noteq> None"
    "add_task x t s = Raised ex s'"
  shows "\<exists>h t'. fallback_handlers x (''task_'' @ name t @ ''_fallback'') = Some h \<and> h t' = Some ex"
proof -
  obtain p s1 where g: "generate_task_priority s = (p, s1)" by (cases "generate_task_priority s")
  have b: "base_url s1 = base_url s" using generate_task_priority_frame [of s] g by simp
  show ?thesis
    using assms g b
    by (auto simp: add_task_def Let_def split: option.splits if_splits res.splits
        dest!: check_task_limits_deprecated_raised)
qed

text \<open>
  C8: \<open>add_task\<close> raises \<open>SpiderMisuseError\<close> at the call when no task queue is
  configured, and when the task's url starts with none of \<open>http://\<close>, \<open>https://\<close>,
  \<open>ftp://\<close> and no \<open>base_url\<close> is set; in both cases nothing is put into the queue.
  In every other case \<open>add_task\<close> raises nothing of its own: an exception that leaves it
  is one the task's fallback handler raised.
\<close>

theorem add_task_misuse:
  "(taskq s = None \<longrightarrow>
      add_task x t s = Raised (SpiderMisuseError
        ''You should configure task queue before adding tasks. Use `setup_queue` method.'') s)
   \<and> (taskq s \<noteq> None \<and> \<not> startswith (url t) ''http://'' \<and> \<not> startswith (url t) ''https://''
        \<and> \<not> startswith (url t) ''ftp://'' \<and> base_url s = None \<longrightarrow>
        (\<exists>s'. add_task x t s = Raised (SpiderMisuseError
            ''Could not resolve relative URL because base_url is not specified'') s'
          \<and> taskq s' = taskq s))
   \<and> (taskq s \<noteq> None
        \<and> (startswith (url t) ''http://'' \<or> startswith (url t) ''https://''
             \<or> startswith (url t) ''ftp://'' \<or> base_url s \<noteq> None) \<longrightarrow>
        (\<forall>ex s'. add_task x t s = Raised ex s' \<longrightarrow>
           (\<exists>h t'. fallback_handlers x (''task_'' @ name t @ ''_fallback'') = Some h
              \<and> h t' = Some ex)))"
proof (intro conjI impI allI)
  assume "taskq s = None"
  then show "add_task x t s = Raised (SpiderMisuseError
        ''You should configure task queue before adding tasks. Use `setup_queue` method.'') s"
    by (rule add_task_no_queue)
next
  assume "taskq s \<noteq> None \<and> \<not> startswith (url t) ''http://'' \<and> \<not> startswith (url t) ''https://''
        \<and> \<not> startswith (url t) ''ftp://'' \<and> base_url s = None"
  then show "\<exists>s'. add_task x t s = Raised (SpiderMisuseError
            ''Could not resolve relative URL because base_url is not specified'') s'
          \<and> taskq s' = taskq s"
    using add_task_relative [of s t x] by blast
next
  fix ex s'
  assume "taskq s \<noteq> None
        \<and> (startswith (url t) ''http://'' \<or> startswith (url t) ''https://''
             \<or> startswith (url t) ''ftp://'' \<or> base_url s \<noteq> None)"
    and "add_task x t s = Raised ex s'"
  then show "\<exists>h t'. fallback_handlers x (''task_'' @ name t @ ''_fallback'') = Some h
              \<and> h t' = Some ex"
    using add_task_otherwise [of s t x ex s'] by blast
qed

theorem add_task_misuse_witness:
  "add_task no_handlers page Spider = Raised (SpiderMisuseError
      ''You should configure task queue before adding tasks. Use `setup_queue` method.'') Spider
   \<and> (\<exists>s'. add_task no_handlers (Task ''page'' ''index.html'') (setup_queue Spider) =
          Raised (SpiderMisuseError
            ''Could not resolve relative URL because base_url is not specified'') s'
        \<and> taskq s' = Some [])
   \<and> (\<forall>ex s'. add_task no_handlers page (setup_queue Spider) \<noteq> Raised ex s')"
proof -
  have a: "taskq Spider = None" "taskq (setup_queue Spider) = Some []"
    "base_url (setup_queue Spider) = None"
    by (simp_all add: Spider_def setup_queue_def)
  have u: "\<not> startswith (url (Task ''page'' ''index.html'')) ''http://''"
    "\<not> startswith (url (Task ''page'' ''index.html'')) ''https://''"
    "\<not> startswith (url (Task ''page'' ''index.html'')) ''ftp://''"
    "startswith (url page) ''http://''"
    by (simp_all add: Task_def page_def startswith_def)
  have f: "fallback_handlers no_handlers (''task_'' @ name page @ ''_fallback'') = None"
    by (simp add: no_handlers_def)
  note inst = add_task_misuse [of Spider no_handlers page]
    add_task_misuse [of "setup_queue Spider" no_handlers "Task ''page'' ''index.html''"]
    add_task_misuse [of "setup_queue Spider" no_handlers page]
  show ?thesis
    using inst a u f by auto
qed

lemma add_task_example:
  "add_task no_handlers page (setup_queue Spider) =
     Returned True ((setup_queue Spider)\<lparr>taskq := Some [(Some 50, page\<lparr>priority := Some 50\<rparr>)]\<rparr>)"
  by (simp add: add_task_def setup_queue_def Spider_def page_def Task_def generate_task_priority_def
      randint_def RANDOM_TASK_PRIORITY_RANGE_def startswith_def check_task_limits_deprecated_def
      check_task_limits_def add_task_handler_def queue_put_def)

subsection \<open>The cache short-circuit\<close>

lemma cache_allowed_unfold:
  "cache_allowed_for_task s t g =
     (cache_enabled s \<and> \<not> refresh_cache t \<and> \<not> disable_cache t \<and> detect_request_method g = ''GET'')"
  by (auto simp: cache_allowed_for_task_def)

lemma check_passes:
  "fst (check_task_limits t s) \<Longrightarrow> check_task_limits_deprecated x t s = Returned True s"
  by (auto simp: check_task_limits_deprecated_def check_task_limits_def Let_def
      split: if_splits option.splits)

lemma pull_task_passed:
  assumes "ready_for_task (transport s)" "taskq s = Some q" "queue_get q = Some (tk, rest)"
    "fst (check_task_limits (count_try tk) (s\<lparr>taskq := Some rest\<rparr>))"
  shows "pull_task x e s =
    (let s0 = s\<lparr>taskq := Some rest\<rparr>; t = count_try tk; grab = build_grab e t s0;
         grab_config_backup = dump_config grab
     in case (if cache_allowed_for_task s0 t grab
              then query_cache t grab grab_config_backup s0 else (None, s0)) of
          (Some cache_result, s2) \<Rightarrow> Returned (Cache_hit cache_result) s2
        | (None, s2) \<Rightarrow>
            if only_cache s2 then Returned (Skipped t) s2
            else (case change_proxy e t grab (inc_count ''request-network'' s2) of
                    (grab', s3) \<Rightarrow>
                      Returned (Submitted t)
                        (s3\<lparr>transport := process_handlers (net_submitted e)
                              (process_task t grab' grab_config_backup (transport s3))\<rparr>)))"
  using assms check_passes [of "count_try tk" "s\<lparr>taskq := Some rest\<rparr>" x]
  by (simp add: pull_task_def Let_def)

lemma pull_task_cache_hit:
  assumes "ready_for_task (transport s)" "taskq s = Some q" "queue_get q = Some (tk, rest)"
    "fst (check_task_limits (count_try tk) (s\<lparr>taskq := Some rest\<rparr>))"
    "cache_allowed_for_task s (count_try tk) (build_grab e (count_try tk) (s\<lparr>taskq := Some rest\<rparr>))"
    "get_item (cache s) (cfg_url (gconfig (build_grab e (count_try tk) (s\<lparr>taskq := Some rest\<rparr>))))
       = Some item"
  shows "pull_task x e s =
    Returned (Cache_hit
       \<lparr>ok = True,
        res_grab = load_response (prepare_request (build_grab e (count_try tk) (s\<lparr>taskq := Some rest\<rparr>))) item,
        grab_config_backup = dump_config (build_grab e (count_try tk) (s\<lparr>taskq := Some rest\<rparr>)),
        res_task = count_try tk, emsg = None\<rparr>)
      (inc_count ''request-cache'' (inc_count ''request'' (s\<lparr>taskq := Some rest\<rparr>)))"
  using assms(5,6)
  by (simp add: pull_task_passed [OF assms(1-4)] Let_def cache_allowed_unfold
      query_cache_def repair_grab_def)


lemma count_try_frame [simp]:
  "url (count_try t) = url t" "name (count_try t) = name t"
  "grab_config (count_try t) = grab_config t" "refresh_cache (count_try t) = refresh_cache t"
  "disable_cache (count_try t) = disable_cache t"
  "network_try_count (count_try t) = network_try_count t + 1"
  by (simp_all add: count_try_def Let_def)

lemma build_grab_request_url:
  "cfg_url (gconfig (build_grab e t s)) =
     (case grab_config t of None \<Rightarrow> Some (url t) | Some c \<Rightarrow> cfg_url c)"
  by (auto simp: build_grab_def Let_def load_config_def setup_url_def create_grab_instance_def
      split: option.splits)

text \<open>
  C4, as the specification states it, fails: the cache is asked for the url of the
  request (\<open>grab.config['url']\<close>, line 413), not for the url of the task. A task that
  carries a request configuration naming another url is cache-eligible, the cache holds
  an entry under the task's url, and the task is submitted to the transport all the
  same.
\<close>

theorem stale_url_counterexample:
  "cache_allowed_for_task moved_spider (count_try moved_page)
     (build_grab quiet (count_try moved_page) (moved_spider\<lparr>taskq := Some []\<rparr>))
   \<and> cache moved_spider (url (count_try moved_page)) = Some \<lparr>code = 200, body = ''hello''\<rparr>
   \<and> fst (check_task_limits (count_try moved_page) (moved_spider\<lparr>taskq := Some []\<rparr>))
   \<and> pull_task no_handlers quiet moved_spider =
       Returned (Submitted (count_try moved_page))
         (state_of (pull_task no_handlers quiet moved_spider))
   \<and> map fst (inflight (transport (state_of (pull_task no_handlers quiet moved_spider)))) =
       [count_try moved_page]"
proof -
  have s: "transport moved_spider = MulticurlTransport 3"
    "taskq moved_spider = Some [(Some 100, moved_page)]"
    "cache moved_spider ''http://example.com/'' = Some \<lparr>code = 200, body = ''hello''\<rparr>"
    "cache moved_spider ''http://example.org/'' = None"
    "cache_enabled moved_spider" "\<not> only_cache moved_spider"
    "\<not> proxylist_enabled moved_spider"
    by (simp_all add: moved_spider_def add_task_handler_def setup_queue_def Spider_def
        queue_put_def moved_page_def queued_page_def page_def Task_def)
  have ready: "ready_for_task (transport moved_spider)"
    by (simp add: s ready_for_task_def MulticurlTransport_def)
  have get: "queue_get [(Some 100, moved_page)] = Some (moved_page, [])"
    by (simp add: queue_get_def)
  have t: "grab_config moved_page = Some (default_config\<lparr>cfg_url := Some ''http://example.org/''\<rparr>)"
    "\<not> refresh_cache moved_page" "\<not> disable_cache moved_page"
    "url moved_page = ''http://example.com/''"
    by (simp_all add: moved_page_def queued_page_def page_def Task_def)
  let ?g = "build_grab quiet (count_try moved_page) (moved_spider\<lparr>taskq := Some []\<rparr>)"
  have m: "detect_request_method ?g = ''GET''"
    by (simp add: detect_request_method_def build_grab_def Let_def t load_config_def
        create_grab_instance_def moved_spider_def add_task_handler_def setup_queue_def
        Spider_def default_config_def)
  have allowed: "cache_allowed_for_task moved_spider (count_try moved_page) ?g"
    by (simp add: cache_allowed_unfold s t m)
  have limits: "fst (check_task_limits (count_try moved_page) (moved_spider\<lparr>taskq := Some []\<rparr>))"
    by (simp add: check_task_limits_def count_try_def moved_page_def queued_page_def page_def
        Task_def moved_spider_def add_task_handler_def setup_queue_def Spider_def)
  have miss: "get_item (cache moved_spider) (cfg_url (gconfig ?g)) = None"
    by (simp add: build_grab_request_url t get_item_def s default_config_def)
  have pull: "pull_task no_handlers quiet moved_spider =
      Returned (Submitted (count_try moved_page))
        ((inc_count ''request-network'' (moved_spider\<lparr>taskq := Some []\<rparr>))
           \<lparr>transport := process_handlers (net_submitted quiet)
              (process_task (count_try moved_page) ?g (dump_config ?g) (MulticurlTransport 3))\<rparr>)"
    using allowed miss s
    by (simp add: pull_task_passed [OF ready s(2) get limits] Let_def query_cache_def
        change_proxy_def inc_count_def)
  have infl: "map fst (inflight (process_handlers (net_submitted quiet)
              (process_task (count_try moved_page) ?g (dump_config ?g) (MulticurlTransport 3)))) =
       [count_try moved_page]"
    by (simp add: process_handlers_def process_task_def MulticurlTransport_def quiet_def)
  show ?thesis
    using allowed limits infl by (simp add: pull state_of_def s t)
qed

text \<open>
  C4, amended: when the task pulled from the queue is cache-eligible and the cache holds
  an entry for the url of the task's request (the url of the task's own request
  configuration when it has one, the task's url otherwise), the transport is left as it
  was: \<open>process_task\<close> is not called for the task in that turn. If the task passes the
  limit check, a result is yielded instead with \<open>ok = True\<close> whose response is the one
  loaded from the cache entry; if it fails the limit check, nothing is yielded and the
  turn ends.
\<close>

theorem cache_hit_not_dispatched:
  assumes "ready_for_task (transport s)" and "taskq s = Some q"
    and "queue_get q = Some (tk, rest)"
    and "cache_allowed_for_task s (count_try tk)
           (build_grab e (count_try tk) (s\<lparr>taskq := Some rest\<rparr>))"
    and "get_item (cache s)
           (case grab_config tk of None \<Rightarrow> Some (url tk) | Some c \<Rightarrow> cfg_url c) = Some item"
  shows "transport (state_of (pull_task x e s)) = transport s
    \<and> (fst (check_task_limits (count_try tk) (s\<lparr>taskq := Some rest\<rparr>)) \<longrightarrow>
        (\<exists>r s2. pull_task x e s = Returned (Cache_hit r) s2
           \<and> ok r \<and> gresponse (res_grab r) = Some item \<and> res_task r = count_try tk
           \<and> emsg r = None
           \<and> loop_turn k x e s =
               (case k (Some r) s2 of
                  Resume s3 \<Rightarrow> drain_transport k e s3
                | Break s3 \<Rightarrow> Break s3
                | Throw ex s3 \<Rightarrow> Throw ex s3)))
    \<and> (\<not> fst (check_task_limits (count_try tk) (s\<lparr>taskq := Some rest\<rparr>)) \<longrightarrow>
        loop_turn k x e s =
          (case check_task_limits_deprecated x (count_try tk) (s\<lparr>taskq := Some rest\<rparr>) of
             Raised ex s1 \<Rightarrow> Throw ex s1
           | Returned v s1 \<Rightarrow> Resume s1))"
proof (cases "fst (check_task_limits (count_try tk) (s\<lparr>taskq := Some rest\<rparr>))")
  case False
  then show ?thesis
    using rejected_not_dispatched(1) [OF assms(1-3) False, of x e]
      rejected_not_dispatched(2) [OF assms(1-3) False, of k x e]
    by simp
next
  case True
  let ?s0 = "s\<lparr>taskq := Some rest\<rparr>"
  let ?g = "build_grab e (count_try tk) ?s0"
  have item: "get_item (cache s) (cfg_url (gconfig ?g)) = Some item"
    using assms(5) by (simp add: build_grab_request_url split: option.splits)
  note hit = pull_task_cache_hit [OF assms(1-3) True assms(4) item, of x]
  have "transport (state_of (pull_task x e s)) = transport s"
    by (simp add: hit state_of_def inc_count_def)
  moreover have "gresponse (load_response (prepare_request ?g) item) = Some item"
    by (simp add: load_response_def)
  ultimately show ?thesis
    using True by (simp add: hit loop_turn_def)
qed

theorem cache_hit_not_dispatched_witness:
  "transport (state_of (pull_task no_handlers quiet cached_spider)) = MulticurlTransport 3
   \<and> (\<exists>r s2. pull_task no_handlers quiet cached_spider = Returned (Cache_hit r) s2
         \<and> ok r \<and> gresponse (res_grab r) = Some \<lparr>code = 200, body = ''hello''\<rparr>
         \<and> res_task r = count_try queued_page)"
proof -
  have s: "transport cached_spider = MulticurlTransport 3"
    "taskq cached_spider = Some [(Some 100, queued_page)]"
    "cache cached_spider ''http://example.com/'' = Some \<lparr>code = 200, body = ''hello''\<rparr>"
    "cache_enabled cached_spider"
    by (simp_all add: cached_spider_def add_task_handler_def setup_queue_def Spider_def
        queue_put_def queued_page_def page_def Task_def)
  have ready: "ready_for_task (transport cached_spider)"
    by (simp add: s ready_for_task_def MulticurlTransport_def)
  have get: "queue_get [(Some 100, queued_page)] = Some (queued_page, [])"
    by (simp add: queue_get_def)
  have t: "grab_config queued_page = None" "\<not> refresh_cache queued_page"
    "\<not> disable_cache queued_page" "url queued_page = ''http://example.com/''"
    by (simp_all add: queued_page_def page_def Task_def)
  have m: "detect_request_method
             (build_grab quiet (count_try queued_page) (cached_spider\<lparr>taskq := Some []\<rparr>)) = ''GET''"
    by (simp add: detect_request_method_def build_grab_def Let_def t setup_url_def
        create_grab_instance_def cached_spider_def add_task_handler_def setup_queue_def
        Spider_def default_config_def)
  have allowed: "cache_allowed_for_task cached_spider (count_try queued_page)
           (build_grab quiet (count_try queued_page) (cached_spider\<lparr>taskq := Some []\<rparr>))"
    by (simp add: cache_allowed_unfold s t m)
  have entry: "get_item (cache cached_spider)
           (case grab_config queued_page of None \<Rightarrow> Some (url queued_page)
            | Some c \<Rightarrow> cfg_url c) = Some \<lparr>code = 200, body = ''hello''\<rparr>"
    by (simp add: t get_item_def s)
  have limits: "fst (check_task_limits (count_try queued_page) (cached_spider\<lparr>taskq := Some []\<rparr>))"
    by (simp add: check_task_limits_def count_try_def queued_page_def page_def Task_def
        cached_spider_def add_task_handler_def setup_queue_def Spider_def)
  show ?thesis
    using cache_hit_not_dispatched [OF ready s(2) get allowed entry, of no_handlers until_stop]
      limits s(1)
    by auto
qed

subsection \<open>Only the cache\<close>



subsection \<open>Retry after a network failure\<close>

lemma check_task_limits_fst_cong:
  assumes "name t' = name t" "task_try_count t' = task_try_count t"
    "network_try_count t' = network_try_count t"
    "config s' = config s" "task_try_limit s' = task_try_limit s"
    "network_try_limit s' = network_try_limit s"
  shows "fst (check_task_limits t' s') = fst (check_task_limits t s)"
  using assms by (simp add: check_task_limits_def Let_def)

lemma add_task_absolute:
  assumes "taskq s = Some q" "priority t = Some p"
    "startswith (url t) ''http://'' \<or> startswith (url t) ''https://'' \<or> startswith (url t) ''ftp://''"
    "fst (check_task_limits t s)"
  shows "add_task x t s = Returned True (s\<lparr>taskq := Some (queue_put t (Some p) q)\<rparr>)"
  using assms check_passes [of t s x]
  by (auto simp: add_task_def add_task_handler_def)

lemma generate_task_priority_cases:
  obtains p s' where "generate_task_priority s = (p, s')" "taskq s' = taskq s"
    "config s' = config s" "task_try_limit s' = task_try_limit s"
    "network_try_limit s' = network_try_limit s"
  by (cases "generate_task_priority s")
     (auto simp: generate_task_priority_def randint_def split: if_splits list.splits)

lemma add_task_enqueues:
  assumes "taskq s = Some q"
    "startswith (url t) ''http://'' \<or> startswith (url t) ''https://'' \<or> startswith (url t) ''ftp://''"
    "fst (check_task_limits t s)"
  shows "\<exists>p s'. add_task x t s = Returned True s'
           \<and> taskq s' = Some (queue_put (t\<lparr>priority := Some p\<rparr>) (Some p) q)
           \<and> (priority t = None \<or> priority t = Some p)"
proof (cases "priority t")
  case (Some p)
  then have eq: "t\<lparr>priority := Some p\<rparr> = t" by simp
  show ?thesis
    using add_task_absolute [OF assms(1) Some assms(2,3), of x] Some by (simp add: eq)
next
  case None
  obtain p s1 where g: "generate_task_priority s = (p, s1)" "taskq s1 = taskq s"
    "config s1 = config s" "task_try_limit s1 = task_try_limit s"
    "network_try_limit s1 = network_try_limit s"
    by (rule generate_task_priority_cases)
  let ?t = "t\<lparr>priority := Some p\<rparr>"
  have c: "fst (check_task_limits ?t s1)"
    using assms(3) check_task_limits_fst_cong [of ?t t s1 s] g by simp
  have "add_task x ?t s1 = Returned True (s1\<lparr>taskq := Some (queue_put ?t (Some p) q)\<rparr>)"
    using add_task_absolute [of s1 q ?t p x] assms(1,2) g c by simp
  moreover have "add_task x t s = add_task x ?t s1"
    using None g assms(1) by (simp add: add_task_def)
  ultimately show ?thesis using None by auto
qed

lemma process_response_failed:
  assumes "(\<not> ok res \<and> emsg res \<noteq> None)
      \<or> (ok res \<and> (\<exists>r. gresponse (res_grab res) = Some r
                       \<and> \<not> valid_response_code (code r) (res_task res)))"
    and "case raw of None \<Rightarrow> True | Some rh \<Rightarrow> rh res = Inr True"
  shows "\<exists>m. process_response x res handler raw s =
     retry_failed x res (Some m)
       (case raw of None \<Rightarrow> s
        | Some rh \<Rightarrow> log_call (Raw_handler_called (''task_raw_'' @ name (res_task res)) res) s)"
  using assms by (auto simp: process_response_def Let_def split: option.splits)

lemma retry_failed_enqueues:
  assumes "0 < network_try_limit s" "taskq s = Some q"
    "startswith (url (res_task res)) ''http://'' \<or> startswith (url (res_task res)) ''https://''
       \<or> startswith (url (res_task res)) ''ftp://''"
    "fst (check_task_limits (res_task res) s)"
  shows "\<exists>p s'. retry_failed x res (Some m) s = Returned () s'
      \<and> taskq s' = Some (queue_put
            ((res_task res)\<lparr>priority := Some p, refresh_cache := True,
               grab_config := Some (grab_config_backup res)\<rparr>) (Some p) q)
      \<and> (priority (res_task res) = None \<or> priority (res_task res) = Some p)"
proof -
  let ?s1 = "inc_count (''network-error-'' @ take 20 m) s"
  let ?t = "setup_grab_config (grab_config_backup res) ((res_task res)\<lparr>refresh_cache := True\<rparr>)"
  have t: "name ?t = name (res_task res)" "task_try_count ?t = task_try_count (res_task res)"
    "network_try_count ?t = network_try_count (res_task res)" "url ?t = url (res_task res)"
    "priority ?t = priority (res_task res)"
    by (simp_all add: setup_grab_config_def)
  have s1: "taskq ?s1 = Some q" "network_try_limit ?s1 = network_try_limit s"
    "config ?s1 = config s" "task_try_limit ?s1 = task_try_limit s"
    using assms(2) by (simp_all add: inc_count_def)
  have c: "fst (check_task_limits ?t ?s1)"
    using assms(4) check_task_limits_fst_cong [of ?t "res_task res" ?s1 s] t s1 by simp
  obtain p s' where a: "add_task x ?t ?s1 = Returned True s'"
    "taskq s' = Some (queue_put (?t\<lparr>priority := Some p\<rparr>) (Some p) q)"
    "priority ?t = None \<or> priority ?t = Some p"
    using add_task_enqueues [of ?s1 q ?t x] s1(1) assms(3) t(4) c by auto
  have "retry_failed x res (Some m) s = Returned () s'"
    using a(1) assms(1) s1(2) by (simp add: retry_failed_def Let_def)
  moreover have "?t\<lparr>priority := Some p\<rparr> =
      (res_task res)\<lparr>priority := Some p, refresh_cache := True,
         grab_config := Some (grab_config_backup res)\<rparr>"
    by (simp add: setup_grab_config_def)
  ultimately show ?thesis using a(2,3) t(5) by auto
qed

lemma build_grab_restored:
  "grab_config t = Some b \<Longrightarrow>
   dump_config (build_grab e t s) =
     b\<lparr>cfg_common_headers := Some (new_headers e),
       cfg_user_agent := (if retry_rebuild_user_agent s then None else cfg_user_agent b)\<rparr>"
  by (simp add: build_grab_def dump_config_def load_config_def create_grab_instance_def Let_def)

lemma failed_page_fields:
  "ok failed_page = False" "emsg failed_page = Some ''Operation timed out''"
  "res_task failed_page = count_try queued_page"
  "grab_config_backup failed_page =
     default_config\<lparr>cfg_url := Some ''http://example.com/'',
       cfg_common_headers := Some [(''Accept-Language'', ''en-us,en;q=0.5'')]\<rparr>"
  by (simp_all add: failed_page_def fetch_result_def build_grab_def dump_config_def setup_url_def
      create_grab_instance_def Spider_def queued_page_def page_def Task_def first_try_def
      quiet_def default_config_def Let_def)

lemma retried_fields:
  "retried =
     \<lparr>name = ''page'', url = ''http://example.com/'', priority = Some 100,
      network_try_count = 1, task_try_count = 1,
      grab_config = Some (grab_config_backup failed_page), refresh_cache = True,
      disable_cache = False, use_proxylist = True, valid_status = []\<rparr>"
  by (simp add: retried_def failed_page_fields(3) count_try_def queued_page_def page_def Task_def)

text \<open>
  C2, as the specification states it, fails in two ways. The request of the dispatch
  that follows a retry is not equal to the backup: the task that \<open>process_response\<close> puts
  back for the failed first fetch of \<open>page\<close> carries the backup, but the next dispatch
  overwrites \<open>common_headers\<close> with a new draw (line 353), here other headers than the
  backup holds. And a raw handler that returns \<open>False\<close> ends \<open>process_response\<close> before
  the retry, so that nothing is put back.
\<close>

theorem retry_counterexample:
  "process_response no_handlers failed_page None None (setup_queue Spider) =
     Returned () (inc_count ''network-error-Operation timed out''
                    ((setup_queue Spider)\<lparr>taskq := Some [(Some 100, retried)]\<rparr>))
   \<and> cfg_common_headers (grab_config_backup failed_page) =
       Some [(''Accept-Language'', ''en-us,en;q=0.5'')]
   \<and> cfg_common_headers (dump_config (build_grab second_try (count_try retried) Spider)) =
       Some [(''Accept-Language'', ''en-us,en;q=0.9'')]
   \<and> dump_config (build_grab second_try (count_try retried) Spider) \<noteq>
       grab_config_backup failed_page
   \<and> process_response vetoing failed_page None (raw_handlers vetoing ''task_raw_page'')
         (setup_queue Spider) =
       Returned () (log_call (Raw_handler_called ''task_raw_page'' failed_page) (setup_queue Spider))
   \<and> network_try_count (res_task failed_page) \<le> network_try_limit (setup_queue Spider)"
proof -
  have a: "process_response no_handlers failed_page None None (setup_queue Spider) =
     Returned () (inc_count ''network-error-Operation timed out''
                    ((setup_queue Spider)\<lparr>taskq := Some [(Some 100, retried)]\<rparr>))"
    unfolding retried_fields
    by (simp add: process_response_def retry_failed_def failed_page_fields setup_grab_config_def
        add_task_def startswith_def check_task_limits_deprecated_def check_task_limits_def
        add_task_handler_def queue_put_def inc_count_def setup_queue_def Spider_def count_try_def
        queued_page_def page_def Task_def Let_def)
  have b: "cfg_common_headers (dump_config (build_grab second_try (count_try retried) Spider)) =
       Some [(''Accept-Language'', ''en-us,en;q=0.9'')]"
    by (simp add: build_grab_def dump_config_def load_config_def create_grab_instance_def
        retried_fields count_try_def second_try_def quiet_def Spider_def Let_def)
  have c: "dump_config (build_grab second_try (count_try retried) Spider) \<noteq>
       grab_config_backup failed_page"
  proof
    assume "dump_config (build_grab second_try (count_try retried) Spider) =
       grab_config_backup failed_page"
    then have "cfg_common_headers (dump_config (build_grab second_try (count_try retried) Spider)) =
       cfg_common_headers (grab_config_backup failed_page)" by simp
    then show False by (simp add: b failed_page_fields)
  qed
  have d: "process_response vetoing failed_page None (raw_handlers vetoing ''task_raw_page'')
         (setup_queue Spider) =
       Returned () (log_call (Raw_handler_called ''task_raw_page'' failed_page) (setup_queue Spider))"
    by (simp add: process_response_def vetoing_def no_handlers_def failed_page_fields count_try_def
        queued_page_def page_def Task_def Let_def)
  have e: "network_try_count (res_task failed_page) \<le> network_try_limit (setup_queue Spider)"
    by (simp add: failed_page_fields count_try_def queued_page_def page_def
        Task_def setup_queue_def Spider_def)
  show ?thesis
    using a b c d e by (simp add: failed_page_fields)
qed

text \<open>
  C2, amended: for a result that is not ok and has an error message, or that is ok with
  a status not valid for its task, when no raw handler is defined or the raw handler
  returns true, \<open>network_try_limit\<close> is positive, the task passes the limit check (as it
  did when it was pulled), a queue is configured and the task's url is absolute:
  \<open>process_response\<close> returns, and the queue then holds the task with \<open>refresh_cache\<close>
  set and the backup as its request configuration, every other field as it was but for
  a priority given to a task that had none, so \<open>task_try_count\<close> as it was. When
  that task is dispatched again, the request configuration is the backup with
  \<open>common_headers\<close> drawn anew and \<open>user_agent\<close> reset under
  \<open>retry_rebuild_user_agent\<close>; the configuration of the Grab after the failed attempt
  plays no part, and the cache is not read for it.
\<close>

theorem retry_restores_backup:
  assumes "(\<not> ok res \<and> emsg res \<noteq> None)
      \<or> (ok res \<and> (\<exists>r. gresponse (res_grab res) = Some r
                       \<and> \<not> valid_response_code (code r) (res_task res)))"
    and "case raw of None \<Rightarrow> True | Some rh \<Rightarrow> rh res = Inr True"
    and "0 < network_try_limit s" and "taskq s = Some q"
    and "startswith (url (res_task res)) ''http://'' \<or> startswith (url (res_task res)) ''https://''
           \<or> startswith (url (res_task res)) ''ftp://''"
    and "fst (check_task_limits (res_task res) s)"
  shows "(\<exists>p s'. process_response x res handler raw s = Returned () s'
           \<and> taskq s' = Some (queue_put
                 ((res_task res)\<lparr>priority := Some p, refresh_cache := True,
                    grab_config := Some (grab_config_backup res)\<rparr>) (Some p) q)
           \<and> (priority (res_task res) = None \<or> priority (res_task res) = Some p))
    \<and> (\<forall>p e s2. dump_config (build_grab e
               (count_try ((res_task res)\<lparr>priority := Some p, refresh_cache := True,
                  grab_config := Some (grab_config_backup res)\<rparr>)) s2) =
             (grab_config_backup res)\<lparr>cfg_common_headers := Some (new_headers e),
                cfg_user_agent := (if retry_rebuild_user_agent s2 then None
                                   else cfg_user_agent (grab_config_backup res))\<rparr>)
    \<and> (\<forall>p s2 g. cache_allowed_for_task s2
               (count_try ((res_task res)\<lparr>priority := Some p, refresh_cache := True,
                  grab_config := Some (grab_config_backup res)\<rparr>)) g = False)"
proof -
  let ?sr = "case raw of None \<Rightarrow> s
             | Some rh \<Rightarrow> log_call (Raw_handler_called (''task_raw_'' @ name (res_task res)) res) s"
  obtain m where m: "process_response x res handler raw s = retry_failed x res (Some m) ?sr"
    using process_response_failed [OF assms(1,2), of x handler s] by blast
  have sr: "network_try_limit ?sr = network_try_limit s" "taskq ?sr = taskq s"
    "config ?sr = config s" "task_try_limit ?sr = task_try_limit s"
    by (simp_all add: log_call_def split: option.splits)
  have c: "fst (check_task_limits (res_task res) ?sr)"
    using assms(6) check_task_limits_fst_cong [of "res_task res" "res_task res" ?sr s] sr by simp
  have "\<exists>p s'. retry_failed x res (Some m) ?sr = Returned () s'
      \<and> taskq s' = Some (queue_put
            ((res_task res)\<lparr>priority := Some p, refresh_cache := True,
               grab_config := Some (grab_config_backup res)\<rparr>) (Some p) q)
      \<and> (priority (res_task res) = None \<or> priority (res_task res) = Some p)"
    using retry_failed_enqueues [of ?sr q res x m] assms(3,4,5) sr(1,2) c by simp
  then have first: "\<exists>p s'. process_response x res handler raw s = Returned () s'
           \<and> taskq s' = Some (queue_put
                 ((res_task res)\<lparr>priority := Some p, refresh_cache := True,
                    grab_config := Some (grab_config_backup res)\<rparr>) (Some p) q)
           \<and> (priority (res_task res) = None \<or> priority (res_task res) = Some p)"
    by (simp add: m)
  have second: "\<And>p e s2. dump_config (build_grab e
               (count_try ((res_task res)\<lparr>priority := Some p, refresh_cache := True,
                  grab_config := Some (grab_config_backup res)\<rparr>)) s2) =
             (grab_config_backup res)\<lparr>cfg_common_headers := Some (new_headers e),
                cfg_user_agent := (if retry_rebuild_user_agent s2 then None
                                   else cfg_user_agent (grab_config_backup res))\<rparr>"
    by (rule build_grab_restored) simp
  have third: "\<And>p s2 g. cache_allowed_for_task s2
               (count_try ((res_task res)\<lparr>priority := Some p, refresh_cache := True,
                  grab_config := Some (grab_config_backup res)\<rparr>)) g = False"
    by (simp add: cache_allowed_unfold)
  show ?thesis
    using first second third by simp
qed

theorem retry_restores_backup_witness:
  "(\<exists>p s'. process_response no_handlers failed_page None None (setup_queue Spider) =
        Returned () s'
      \<and> taskq s' = Some (queue_put
            ((res_task failed_page)\<lparr>priority := Some p, refresh_cache := True,
               grab_config := Some (grab_config_backup failed_page)\<rparr>) (Some p) [])
      \<and> (priority (res_task failed_page) = None \<or> priority (res_task failed_page) = Some p))
   \<and> dump_config (build_grab second_try
         (count_try ((res_task failed_page)\<lparr>priority := Some 100, refresh_cache := True,
            grab_config := Some (grab_config_backup failed_page)\<rparr>)) Spider) =
       (grab_config_backup failed_page)\<lparr>cfg_common_headers := Some (new_headers second_try),
          cfg_user_agent := None\<rparr>"
proof -
  have a: "(\<not> ok failed_page \<and> emsg failed_page \<noteq> None)
      \<or> (ok failed_page \<and> (\<exists>r. gresponse (res_grab failed_page) = Some r
                       \<and> \<not> valid_response_code (code r) (res_task failed_page)))"
    by (simp add: failed_page_fields)
  have b: "case (None :: raw_handler option) of None \<Rightarrow> True
           | Some rh \<Rightarrow> rh failed_page = Inr True"
    by simp
  have c: "0 < network_try_limit (setup_queue Spider)" "taskq (setup_queue Spider) = Some []"
    "retry_rebuild_user_agent Spider"
    by (simp_all add: setup_queue_def Spider_def)
  have d: "startswith (url (res_task failed_page)) ''http://''
           \<or> startswith (url (res_task failed_page)) ''https://''
           \<or> startswith (url (res_task failed_page)) ''ftp://''"
    by (simp add: failed_page_fields queued_page_def page_def Task_def startswith_def)
  have e: "fst (check_task_limits (res_task failed_page) (setup_queue Spider))"
    by (simp add: check_task_limits_def failed_page_fields count_try_def queued_page_def page_def
        Task_def setup_queue_def Spider_def)
  show ?thesis
    using retry_restores_backup [OF a b c(1,2) d e, of no_handlers None] c(3)
    by simp
qed

subsection \<open>Errors of handlers\<close>












text \<open>
  The conversion is not total: for an exception whose message holds a byte above 127,
  \<open>process_handler_error\<close> is left by \<open>UnicodeDecodeError\<close> after the counter and before
  the item.
\<close>

lemma undecodable_text_example:
  "is_Exception undecodable \<and> \<not> is_FatalError undecodable
   \<and> process_handler_error undecodable page Spider =
       Raised UnicodeDecodeError (inc_count ''error-valueerror'' Spider)"
proof -
  have "\<not> is_ascii [char_of (233 :: nat)]" by code_simp
  moreover have "lower ''ValueError'' = ''valueerror''" by code_simp
  ultimately show ?thesis
    by (simp add: process_handler_error_def unicode_def undecodable_def is_Exception_def
        is_FatalError_def)
qed

end
